theory Spec2Isabelle
  imports Complex_Main "HOL-Library.Sublist"
begin

section \<open>DICOM importer: data model\<close>

text \<open>
  A \<^verbatim>\<open>pathlib.Path\<close> is modelled by its parts below the filesystem root, so
  \<^verbatim>\<open>/inbox/clinicA/study1\<close> is \<open>[''inbox'', ''clinicA'', ''study1'']\<close>. The
  pending dictionary of the watcher is keyed by \<^verbatim>\<open>str(study_folder)\<close> and the key
  is turned back into a path with \<^verbatim>\<open>Path(folder_key)\<close>; both conversions are
  inverse to each other on such paths, so the model keys the dictionary by the path.
  \<^verbatim>\<open>time.time()\<close> is a real number of seconds.
\<close>

type_synonym path = "string list"

record config =
  inbox_path :: path
  processed_path :: path
  failed_path :: path
  orthanc_url :: string
  keycloak_url :: string
  keycloak_realm :: string
  keycloak_client_id :: string
  keycloak_client_secret :: string
  cooldown_seconds :: int

text \<open>
  \<^verbatim>\<open>folder_path.relative_to(base)\<close>: the parts of the path below \<open>base\<close>, and
  \<^verbatim>\<open>ValueError\<close> (here \<open>None\<close>) when the path is not below it.
\<close>

definition relative_to :: "path \<Rightarrow> path \<Rightarrow> path option" where
  "relative_to p base = (if prefix base p then Some (drop (length base) p) else None)"

subsection \<open>The pending dictionary\<close>

text \<open>
  A Python \<^verbatim>\<open>dict\<close> keeps its keys in insertion order; assigning to a key that is
  present replaces the value in place, and assigning to a new key appends it.
\<close>

type_synonym pending = "(path \<times> real) list"

fun dict_set :: "('k \<times> 'v) list \<Rightarrow> 'k \<Rightarrow> 'v \<Rightarrow> ('k \<times> 'v) list" where
  "dict_set [] k v = [(k, v)]"
| "dict_set ((k', v') # d) k v = (if k' = k then (k, v) # d else (k', v') # dict_set d k v)"

definition dict_del :: "('k \<times> 'v) list \<Rightarrow> 'k \<Rightarrow> ('k \<times> 'v) list" where
  "dict_del d k = filter (\<lambda>kv. fst kv \<noteq> k) d"

definition dict_get :: "('k \<times> 'v) list \<Rightarrow> 'k \<Rightarrow> 'v option" where
  "dict_get d k = map_of d k"

record handler =
  pending_folders :: pending
  pending_imports :: nat

text \<open>
  \<^verbatim>\<open>InboxHandler._handle_new_folder\<close>, called at time \<open>now\<close>
  (the value \<^verbatim>\<open>time.time()\<close> returns inside the lock).
\<close>

definition handle_new_folder :: "config \<Rightarrow> real \<Rightarrow> path \<Rightarrow> handler \<Rightarrow> handler" where
  "handle_new_folder cfg now folder_path h =
     (case relative_to folder_path (inbox_path cfg) of
        None \<Rightarrow> h
      | Some parts \<Rightarrow>
          if length parts < 2 then h
          else
            let clinic_id = parts ! 0;
                study_folder = inbox_path cfg @ [clinic_id, parts ! 1];
                pend = dict_set (pending_folders h) study_folder now
            in h\<lparr>pending_folders := pend, pending_imports := length pend\<rparr>)"

text \<open>Calling \<^verbatim>\<open>_handle_new_folder\<close> once per time stamp of the list, in order.\<close>

fun note_all :: "config \<Rightarrow> real list \<Rightarrow> path \<Rightarrow> handler \<Rightarrow> handler" where
  "note_all cfg [] p h = h"
| "note_all cfg (t # ts) p h = note_all cfg ts p (handle_new_folder cfg t p h)"

subsection \<open>The filesystem\<close>

text \<open>
  The filesystem is the list of its entries, in the order the operating system
  enumerates them. A path exists when it is an entry or an ancestor of one.
\<close>

datatype json = JNull | JBool bool | JInt int | JNum real | JStr string
  | JArr "json list" | JObj "(string \<times> json) list"

datatype content = Bytes string | JsonDoc json

datatype node = Dir | File content

type_synonym filesystem = "(path \<times> node) list"

definition path_exists :: "filesystem \<Rightarrow> path \<Rightarrow> bool" where
  "path_exists fs p = list_ex (\<lambda>e. prefix p (fst e)) fs"

subsection \<open>Draining the pending dictionary\<close>

text \<open>
  The first loop of \<^verbatim>\<open>check_pending_folders\<close>, over the snapshot
  \<^verbatim>\<open>list(self.pending_folders.items())\<close>.
\<close>

fun collect_expired :: "config \<Rightarrow> real \<Rightarrow> (path \<times> real) list \<Rightarrow> path list \<times> pending
    \<Rightarrow> path list \<times> pending" where
  "collect_expired cfg now [] acc = acc"
| "collect_expired cfg now ((folder_key, timestamp) # items) (folders_to_process, pend) =
     (if now - timestamp \<ge> real_of_int (cooldown_seconds cfg)
      then collect_expired cfg now items (folders_to_process @ [folder_key], dict_del pend folder_key)
      else collect_expired cfg now items (folders_to_process, pend))"

text \<open>
  The second loop: the jobs handed to \<^verbatim>\<open>self._executor.submit\<close>, as pairs of
  the folder and the clinic. \<^verbatim>\<open>relative.parts[0]\<close> raises \<^verbatim>\<open>IndexError\<close> on
  the inbox root itself, which the source skips like a \<^verbatim>\<open>ValueError\<close>.
\<close>

fun submit_folders :: "config \<Rightarrow> filesystem \<Rightarrow> path list \<Rightarrow> (path \<times> string) list" where
  "submit_folders cfg fs [] = []"
| "submit_folders cfg fs (folder_key # rest) =
     (if \<not> path_exists fs folder_key then submit_folders cfg fs rest
      else case relative_to folder_key (inbox_path cfg) of
             None \<Rightarrow> submit_folders cfg fs rest
           | Some [] \<Rightarrow> submit_folders cfg fs rest
           | Some (clinic_id # _) \<Rightarrow> (folder_key, clinic_id) # submit_folders cfg fs rest)"

definition check_pending_folders :: "config \<Rightarrow> real \<Rightarrow> filesystem \<Rightarrow> handler
    \<Rightarrow> handler \<times> (path \<times> string) list" where
  "check_pending_folders cfg now fs h =
     (let (folders_to_process, pend) =
            collect_expired cfg now (pending_folders h) ([], pending_folders h)
      in (h\<lparr>pending_folders := pend, pending_imports := length pend\<rparr>,
          submit_folders cfg fs folders_to_process))"


subsection \<open>Predicates and sample data used by the theorems\<close>

definition is_expired :: "config \<Rightarrow> real \<Rightarrow> path \<times> real \<Rightarrow> bool" where
  "is_expired cfg now e = (now - snd e \<ge> real_of_int (cooldown_seconds cfg))"

definition study_key :: "config \<Rightarrow> path \<Rightarrow> bool" where
  "study_key cfg k = (length k = length (inbox_path cfg) + 2 \<and> take (length (inbox_path cfg)) k = inbox_path cfg)"

definition wf_pending :: "config \<Rightarrow> pending \<Rightarrow> bool" where
  "wf_pending cfg pend = (distinct (map fst pend) \<and> list_all (\<lambda>e. study_key cfg (fst e)) pend)"

definition cfg0 :: config where
  "cfg0 = \<lparr>inbox_path = [''inbox''], processed_path = [''processed''], failed_path = [''failed''],
     orthanc_url = ''http://orthanc:8042'', keycloak_url = ''http://keycloak:8080'',
     keycloak_realm = ''dicom'', keycloak_client_id = ''orthanc-api'',
     keycloak_client_secret = ''s3cret'', cooldown_seconds = 60\<rparr>"

definition h0 :: handler where
  "h0 = \<lparr>pending_folders =
            [([''inbox'', ''clinicA'', ''study1''], 0),
             ([''inbox'', ''clinicA'', ''study2''], 100),
             ([''inbox'', ''clinicB'', ''gone''], 10)],
          pending_imports = 3\<rparr>"

definition fs0 :: filesystem where
  "fs0 = [([''inbox'', ''clinicA'', ''study1'', ''img.dcm''], File (Bytes ''DICM'')),
          ([''inbox'', ''clinicA'', ''study2''], Dir)]"

section \<open>The token manager\<close>

text \<open>
  An exception is its class name and its message (\<^verbatim>\<open>str(e)\<close>). A call through
  \<^verbatim>\<open>requests\<close> either raises or returns a response, of which the model keeps the
  status code, the body parsed as JSON (\<open>None\<close> when \<^verbatim>\<open>response.json()\<close> raises) and the
  text of the body.
\<close>

datatype exn = Exn string string

datatype http_result = Raised exn | Response nat "json option" string

record http_request =
  req_url :: string
  req_form :: "(string \<times> string) list"
  req_body :: string
  req_headers :: "(string \<times> string) list"
  req_timeout :: nat

text \<open>
  \<^verbatim>\<open>self._token\<close> holds whatever \<^verbatim>\<open>data['access_token']\<close> was, and \<^verbatim>\<open>None\<close>
  (\<open>JNull\<close>) before the first refresh. \<open>truthy\<close> is Python's truth value of such a value.
\<close>

record token_manager =
  token :: json
  token_expires :: real

fun truthy :: "json \<Rightarrow> bool" where
  "truthy JNull = False"
| "truthy (JBool b) = b"
| "truthy (JInt n) = (n \<noteq> 0)"
| "truthy (JNum r) = (r \<noteq> 0)"
| "truthy (JStr s) = (s \<noteq> [])"
| "truthy (JArr xs) = (xs \<noteq> [])"
| "truthy (JObj kvs) = (kvs \<noteq> [])"

definition token_request :: "config \<Rightarrow> http_request" where
  "token_request cfg =
     \<lparr>req_url = keycloak_url cfg @ ''/realms/'' @ keycloak_realm cfg
                  @ ''/protocol/openid-connect/token'',
      req_form = [(''grant_type'', ''client_credentials''),
                  (''client_id'', keycloak_client_id cfg),
                  (''client_secret'', keycloak_client_secret cfg)],
      req_body = [],
      req_headers = [],
      req_timeout = 30\<rparr>"

text \<open>
  \<^verbatim>\<open>response.raise_for_status()\<close> raises for the status codes 400 to 599 and for no
  other.
\<close>

definition raise_for_status :: "nat \<Rightarrow> bool" where
  "raise_for_status status = (400 \<le> status \<and> status < 600)"

text \<open>
  A JSON value is what \<^verbatim>\<open>response.json()\<close> returns: \<open>JInt\<close> is a Python
  \<^verbatim>\<open>int\<close> (of any size) and \<open>JNum\<close> a finite \<^verbatim>\<open>float\<close>.
  Adding an \<^verbatim>\<open>int\<close> to a \<^verbatim>\<open>float\<close> first converts the integer, which raises
  \<^verbatim>\<open>OverflowError\<close> when it rounds to a magnitude beyond the largest double,
  \<open>2 ^ 1024 - 2 ^ 971\<close>: that is from \<open>2 ^ 1024 - 2 ^ 970\<close> on.
\<close>

definition int_overflows_float :: "int \<Rightarrow> bool" where
  "int_overflows_float n = (\<bar>n\<bar> \<ge> 2 ^ 1024 - 2 ^ 970)"

text \<open>
  \<^verbatim>\<open>time.time() + data.get('expires_in', 300)\<close>: the sum is defined for a float, for
  an integer within the float range and for a boolean (\<^verbatim>\<open>True\<close> counts 1); it raises
  \<^verbatim>\<open>OverflowError\<close> for a larger integer and \<^verbatim>\<open>TypeError\<close> for every other
  JSON value (\<open>None\<close> stands for both).
\<close>

definition expiry_after :: "real \<Rightarrow> (string \<times> json) list \<Rightarrow> real option" where
  "expiry_after now data =
     (case map_of data ''expires_in'' of
        None \<Rightarrow> Some (now + 300)
      | Some (JInt n) \<Rightarrow> if int_overflows_float n then None else Some (now + real_of_int n)
      | Some (JNum r) \<Rightarrow> Some (now + r)
      | Some (JBool b) \<Rightarrow> Some (now + (if b then 1 else 0))
      | Some _ \<Rightarrow> None)"

text \<open>
  \<^verbatim>\<open>TokenManager._refresh_token\<close>. \<open>net\<close> is the identity provider as the network
  shows it, \<open>now\<close> the clock when the expiry is computed. The result is the returned
  value (\<open>JNull\<close> for \<^verbatim>\<open>None\<close>), the manager afterwards, and the requests sent. Every
  exception inside the \<^verbatim>\<open>try\<close> block is caught and turned into \<^verbatim>\<open>None\<close>; the
  assignment to \<^verbatim>\<open>self._token\<close> that precedes the failing sum is kept.
\<close>

definition refresh_token :: "config \<Rightarrow> (http_request \<Rightarrow> http_result) \<Rightarrow> real \<Rightarrow> token_manager
    \<Rightarrow> json \<times> token_manager \<times> http_request list" where
  "refresh_token cfg net now tm =
     (if keycloak_client_secret cfg = [] then (JNull, tm, [])
      else
        case net (token_request cfg) of
          Raised e \<Rightarrow> (JNull, tm, [token_request cfg])
        | Response status body text \<Rightarrow>
            if raise_for_status status then (JNull, tm, [token_request cfg])
            else
              case body of
                Some (JObj data) \<Rightarrow>
                  (case map_of data ''access_token'' of
                     None \<Rightarrow> (JNull, tm, [token_request cfg])
                   | Some tok \<Rightarrow>
                       (case expiry_after now data of
                          None \<Rightarrow> (JNull, tm\<lparr>token := tok\<rparr>, [token_request cfg])
                        | Some expires \<Rightarrow>
                            (tok, tm\<lparr>token := tok, token_expires := expires\<rparr>,
                             [token_request cfg])))
              | _ \<Rightarrow> (JNull, tm, [token_request cfg]))"

text \<open>
  \<^verbatim>\<open>TokenManager.get_token\<close>; \<open>now1\<close> is the clock at the test of the cached token,
  \<open>now2\<close> the later reading inside \<^verbatim>\<open>_refresh_token\<close>.
\<close>

definition get_token :: "config \<Rightarrow> (http_request \<Rightarrow> http_result) \<Rightarrow> real \<Rightarrow> real
    \<Rightarrow> token_manager \<Rightarrow> json \<times> token_manager \<times> http_request list" where
  "get_token cfg net now1 now2 tm =
     (if truthy (token tm) \<and> now1 < token_expires tm - 60 then (token tm, tm, [])
      else refresh_token cfg net now2 tm)"

text \<open>The outcomes of the exchange on which \<^verbatim>\<open>_refresh_token\<close> raises before it stores anything.\<close>

definition refresh_fails :: "http_result \<Rightarrow> bool" where
  "refresh_fails r =
     (case r of
        Raised e \<Rightarrow> True
      | Response status body text \<Rightarrow>
          raise_for_status status \<or>
          (case body of
             Some (JObj data) \<Rightarrow> map_of data ''access_token'' = None
           | _ \<Rightarrow> True))"

definition tm0 :: token_manager where
  "tm0 = \<lparr>token = JStr ''cached'', token_expires = 1000\<rparr>"

definition net_ok :: "http_request \<Rightarrow> http_result" where
  "net_ok req = Response 200
     (Some (JObj [(''access_token'', JStr ''fresh''), (''expires_in'', JInt 120)])) ''{}''"

definition net_float :: "http_request \<Rightarrow> http_result" where
  "net_float req = Response 201
     (Some (JObj [(''expires_in'', JNum 3600), (''access_token'', JStr ''brief'')])) ''{}''"

definition net_no_lifetime :: "http_request \<Rightarrow> http_result" where
  "net_no_lifetime req = Response 200
     (Some (JObj [(''access_token'', JStr ''plain''), (''token_type'', JStr ''Bearer'')])) ''{}''"

definition net_down :: "http_request \<Rightarrow> http_result" where
  "net_down req = Response 503 None ''Service Unavailable''"

section \<open>The study processor\<close>

subsection \<open>The world outside the program\<close>

text \<open>
  What the program cannot decide is an input of the model. Every interaction with the
  outside (a clock reading, a filesystem operation, an HTTP exchange) takes the next
  number \<open>tick\<close>, and the environment says what that interaction yields:
  a filesystem operation may fail for reasons the model does not see (permissions, a full
  disk), the clock and the calendar may advance, and the servers answer as they like.
  \<^verbatim>\<open>pydicom\<close>, \<^verbatim>\<open>hashlib\<close> and the rendering of numbers are library code and
  parameters as well.
\<close>

type_synonym tag = "nat \<times> nat"

type_synonym dataset = "(tag \<times> string) list"

record env =
  io_fault :: "nat \<Rightarrow> exn option"
  http :: "nat \<Rightarrow> http_request \<Rightarrow> http_result"
  clock :: "nat \<Rightarrow> real"
  date_str :: "nat \<Rightarrow> string"
  time_str :: "nat \<Rightarrow> string"
  iso_str :: "nat \<Rightarrow> string"
  dcmread_meta :: "content \<Rightarrow> bool"
  dcmread :: "content \<Rightarrow> exn + dataset"
  save_as :: "dataset \<Rightarrow> exn + string"
  md5_hex :: "string \<Rightarrow> string"
  str_float :: "real \<Rightarrow> string"
  str_json :: "json \<Rightarrow> string"

record world =
  disk :: filesystem
  tick :: nat
  logs :: "(string \<times> string) list"
  imports_total :: "(string \<times> string) list"
  instances_uploaded :: "string list"
  active_imports :: int
  import_duration :: "(string \<times> real) list"
  upload_duration :: "real list"
  sent :: "http_request list"
  tokens :: token_manager

definition log_event :: "string \<Rightarrow> string \<Rightarrow> world \<Rightarrow> world" where
  "log_event level event w = w\<lparr>logs := logs w @ [(level, event)]\<rparr>"

definition msg :: "exn \<Rightarrow> string" where
  "msg x = (case x of Exn cls m \<Rightarrow> m)"

subsection \<open>Paths and filesystem operations\<close>

definition is_file :: "filesystem \<Rightarrow> path \<Rightarrow> bool" where
  "is_file fs p = list_ex (\<lambda>e. fst e = p \<and> (case snd e of File c \<Rightarrow> True | Dir \<Rightarrow> False)) fs"

definition is_dir :: "filesystem \<Rightarrow> path \<Rightarrow> bool" where
  "is_dir fs p = (path_exists fs p \<and> \<not> is_file fs p)"

fun file_content :: "filesystem \<Rightarrow> path \<Rightarrow> content option" where
  "file_content [] p = None"
| "file_content ((q, File c) # fs) p = (if q = p then Some c else file_content fs p)"
| "file_content ((q, Dir) # fs) p = file_content fs p"

text \<open>\<^verbatim>\<open>path.name\<close>; the name of the root is the empty string.\<close>

definition basename :: "path \<Rightarrow> string" where
  "basename p = (if p = [] then [] else last p)"

definition path_str :: "path \<Rightarrow> string" where
  "path_str p = (if p = [] then ''.'' else foldr (\<lambda>a s. if s = [] then a else a @ ''/'' @ s) p [])"

text \<open>\<^verbatim>\<open>dest_dir.mkdir(parents=True, exist_ok=True)\<close>.\<close>

definition mkdir_parents :: "env \<Rightarrow> path \<Rightarrow> world \<Rightarrow> (exn + unit) \<times> world" where
  "mkdir_parents e p w =
     (let w' = w\<lparr>tick := tick w + 1\<rparr> in
      case io_fault e (tick w) of
        Some x \<Rightarrow> (Inl x, w')
      | None \<Rightarrow>
          if list_ex (is_file (disk w)) (prefixes p)
          then (Inl (Exn ''FileExistsError'' (path_str p)), w')
          else if path_exists (disk w) p then (Inr (), w')
          else (Inr (), w'\<lparr>disk := disk w @ [(p, Dir)]\<rparr>))"

definition rename_entry :: "path \<Rightarrow> path \<Rightarrow> path \<times> node \<Rightarrow> path \<times> node" where
  "rename_entry src dst e =
     (if prefix src (fst e) then (dst @ drop (length src) (fst e), snd e) else e)"

text \<open>
  \<^verbatim>\<open>shutil.move(src, dst)\<close>: a destination that is a directory receives the source
  under its own name; the move raises when the real destination exists, when the source
  does not, and when the destination lies inside the source. A move that raises leaves
  the filesystem as it was. The result is the real destination.
\<close>

definition shutil_move :: "env \<Rightarrow> path \<Rightarrow> path \<Rightarrow> world \<Rightarrow> (exn + path) \<times> world" where
  "shutil_move e src dst w =
     (let w' = w\<lparr>tick := tick w + 1\<rparr>;
          real_dst = (if is_dir (disk w) dst then dst @ [basename src] else dst)
      in case io_fault e (tick w) of
           Some x \<Rightarrow> (Inl x, w')
         | None \<Rightarrow>
             if path_exists (disk w) real_dst
             then (Inl (Exn ''Error'' (''Destination path already exists: '' @ path_str real_dst)), w')
             else if \<not> path_exists (disk w) src
             then (Inl (Exn ''FileNotFoundError'' (path_str src)), w')
             else if prefix src real_dst
             then (Inl (Exn ''Error'' (''Cannot move a directory into itself: '' @ path_str src)), w')
             else (Inr real_dst, w'\<lparr>disk := map (rename_entry src real_dst) (disk w)\<rparr>))"

text \<open>\<^verbatim>\<open>with open(error_file, 'w') as f: json.dump(error_log, f, indent=2)\<close>.\<close>

definition write_json :: "env \<Rightarrow> path \<Rightarrow> json \<Rightarrow> world \<Rightarrow> (exn + unit) \<times> world" where
  "write_json e p doc w =
     (let w' = w\<lparr>tick := tick w + 1\<rparr> in
      case io_fault e (tick w) of
        Some x \<Rightarrow> (Inl x, w')
      | None \<Rightarrow>
          if is_dir (disk w) p then (Inl (Exn ''IsADirectoryError'' (path_str p)), w')
          else (Inr (), w'\<lparr>disk := filter (\<lambda>e. fst e \<noteq> p) (disk w) @ [(p, File (JsonDoc doc))]\<rparr>))"

subsection \<open>Moving a study folder\<close>

text \<open>The destination the two moves compute, with the time stamp on a collision.\<close>

definition dest_path_of :: "env \<Rightarrow> path \<Rightarrow> path \<Rightarrow> world \<Rightarrow> path \<times> world" where
  "dest_path_of e dest_dir study_path w =
     (let dest_path = dest_dir @ [basename study_path] in
      if path_exists (disk w) dest_path
      then (dest_dir @ [basename study_path @ ''_'' @ time_str e (tick w)],
            w\<lparr>tick := tick w + 1\<rparr>)
      else (dest_path, w))"

definition move_to_processed :: "env \<Rightarrow> config \<Rightarrow> path \<Rightarrow> string \<Rightarrow> world
    \<Rightarrow> (exn + unit) \<times> world" where
  "move_to_processed e cfg study_path clinic_id w =
     (let dest_dir = processed_path cfg @ [clinic_id, date_str e (tick w)];
          w1 = w\<lparr>tick := tick w + 1\<rparr>
      in case mkdir_parents e dest_dir w1 of
           (Inl x, w2) \<Rightarrow> (Inl x, w2)
         | (Inr u, w2) \<Rightarrow>
             (case dest_path_of e dest_dir study_path w2 of
                (dest_path, w3) \<Rightarrow>
                  (case shutil_move e study_path dest_path w3 of
                     (Inl x, w4) \<Rightarrow> (Inl x, w4)
                   | (Inr d, w4) \<Rightarrow> (Inr (), log_event ''info'' ''Study moved to processed'' w4))))"

definition error_log :: "string \<Rightarrow> path \<Rightarrow> string \<Rightarrow> string \<Rightarrow> (string \<times> string) list \<Rightarrow> json" where
  "error_log timestamp study_path clinic_id reason errors =
     JObj [(''timestamp'', JStr timestamp),
           (''study_folder'', JStr (basename study_path)),
           (''clinic_id'', JStr clinic_id),
           (''reason'', JStr reason),
           (''errors'', JArr (map (\<lambda>er. JObj [(''file'', JStr (fst er)), (''error'', JStr (snd er))])
                                  errors))]"

definition move_to_failed :: "env \<Rightarrow> config \<Rightarrow> path \<Rightarrow> string \<Rightarrow> string
    \<Rightarrow> (string \<times> string) list \<Rightarrow> world \<Rightarrow> (exn + unit) \<times> world" where
  "move_to_failed e cfg study_path clinic_id reason errors w =
     (let dest_dir = failed_path cfg @ [clinic_id, date_str e (tick w)];
          w1 = w\<lparr>tick := tick w + 1\<rparr>
      in case mkdir_parents e dest_dir w1 of
           (Inl x, w2) \<Rightarrow> (Inl x, w2)
         | (Inr u, w2) \<Rightarrow>
             (case dest_path_of e dest_dir study_path w2 of
                (dest_path, w3) \<Rightarrow>
                  (case shutil_move e study_path dest_path w3 of
                     (Inl x, w4) \<Rightarrow> (Inl x, w4)
                   | (Inr d, w4) \<Rightarrow>
                       (let doc = error_log (iso_str e (tick w4)) study_path clinic_id reason errors;
                            error_file = dest_dir @ [basename dest_path @ ''.error.json''];
                            w5 = w4\<lparr>tick := tick w4 + 1\<rparr>
                        in case write_json e error_file doc w5 of
                             (Inl x, w6) \<Rightarrow> (Inl x, w6)
                           | (Inr u, w6) \<Rightarrow>
                               (Inr (), log_event ''warning'' ''Study moved to failed'' w6)))))"

subsection \<open>Discovery of the instance files\<close>

definition lower_char :: "char \<Rightarrow> char" where
  "lower_char c =
     (let n = (of_char c :: nat) in if 65 \<le> n \<and> n \<le> 90 then char_of (n + 32) else c)"

definition lower :: "string \<Rightarrow> string" where
  "lower s = map lower_char s"

fun rfind :: "'a \<Rightarrow> 'a list \<Rightarrow> nat option" where
  "rfind c [] = None"
| "rfind c (x # xs) =
     (case rfind c xs of Some i \<Rightarrow> Some (Suc i) | None \<Rightarrow> if x = c then Some 0 else None)"

text \<open>
  \<^verbatim>\<open>PurePath.suffix\<close>: the name from its last dot on, unless that dot is the first or
  the last character of the name.
\<close>

definition py_suffix :: "string \<Rightarrow> string" where
  "py_suffix name =
     (case rfind (CHR ''.'') name of
        None \<Rightarrow> []
      | Some i \<Rightarrow> if 0 < i \<and> i < length name - 1 then drop i name else [])"

text \<open>
  Every path that exists: the entries and their ancestors, without the root.
  \<^verbatim>\<open>study_path.glob('**/*')\<close> yields those strictly below the study folder, and
  \<^verbatim>\<open>study_path.glob('**/*.dcm')\<close> those of them whose name ends in \<^verbatim>\<open>.dcm\<close>
  (the match is case sensitive on a POSIX filesystem, and also takes directories).
\<close>

definition all_paths :: "filesystem \<Rightarrow> path list" where
  "all_paths fsys = remdups (concat (map (\<lambda>e. tl (prefixes (fst e))) fsys))"

definition rglob :: "filesystem \<Rightarrow> path \<Rightarrow> path list" where
  "rglob fsys study_path = filter (strict_prefix study_path) (all_paths fsys)"

definition glob_ext :: "filesystem \<Rightarrow> path \<Rightarrow> string \<Rightarrow> path list" where
  "glob_ext fsys study_path ext = filter (\<lambda>p. suffix ext (basename p)) (rglob fsys study_path)"

definition skipped_suffixes :: "string list" where
  "skipped_suffixes = [''.dcm'', ''.json'', ''.txt'', ''.log'']"

text \<open>The second loop of the discovery, which probes the files of other extensions.\<close>

fun probe_files :: "env \<Rightarrow> filesystem \<Rightarrow> path list \<Rightarrow> path list \<Rightarrow> path list" where
  "probe_files e fsys [] dicom_files = dicom_files"
| "probe_files e fsys (file_path # rest) dicom_files =
     (if is_file fsys file_path \<and> lower (py_suffix (basename file_path)) \<notin> set skipped_suffixes
      then (case file_content fsys file_path of
              None \<Rightarrow> probe_files e fsys rest dicom_files
            | Some c \<Rightarrow>
                if dcmread_meta e c
                then (if file_path \<notin> set dicom_files
                      then probe_files e fsys rest (dicom_files @ [file_path])
                      else probe_files e fsys rest dicom_files)
                else probe_files e fsys rest dicom_files)
      else probe_files e fsys rest dicom_files)"

definition discover :: "env \<Rightarrow> path \<Rightarrow> world \<Rightarrow> (exn + path list) \<times> world" where
  "discover e study_path w =
     (let w' = w\<lparr>tick := tick w + 1\<rparr> in
      case io_fault e (tick w) of
        Some x \<Rightarrow> (Inl x, w')
      | None \<Rightarrow>
          (Inr (probe_files e (disk w) (rglob (disk w) study_path)
                  (glob_ext (disk w) study_path ''.dcm'' @ glob_ext (disk w) study_path ''.DCM'')),
           w'))"

subsection \<open>One instance: read, retag, upload\<close>

definition institution_name :: tag where
  "institution_name = (8, 128)"

definition cls :: "exn \<Rightarrow> string" where
  "cls x = (case x of Exn c m \<Rightarrow> c)"

definition crlf :: string where
  "crlf = [char_of (13::nat), char_of (10::nat)]"

definition dquote :: string where
  "dquote = [char_of (34::nat)]"

fun str_nat :: "nat \<Rightarrow> string" where
  "str_nat n =
     (if n < 10 then [char_of (48 + n)] else str_nat (n div 10) @ [char_of (48 + n mod 10)])"

declare str_nat.simps [simp del]

definition read_file :: "env \<Rightarrow> path \<Rightarrow> world \<Rightarrow> (exn + content) \<times> world" where
  "read_file e p w =
     (let w' = w\<lparr>tick := tick w + 1\<rparr> in
      case io_fault e (tick w) of
        Some x \<Rightarrow> (Inl x, w')
      | None \<Rightarrow>
          (case file_content (disk w) p of
             None \<Rightarrow> (Inl (Exn ''OSError'' (path_str p)), w')
           | Some c \<Rightarrow> (Inr c, w')))"

text \<open>\<^verbatim>\<open>self.token_manager.get_token()\<close> with the clock and the network of the world.\<close>

definition get_token_w :: "env \<Rightarrow> config \<Rightarrow> world \<Rightarrow> json \<times> world" where
  "get_token_w e cfg w =
     (case get_token cfg (http e (tick w + 1)) (clock e (tick w)) (clock e (tick w + 2)) (tokens w) of
        (tok, tm, reqs) \<Rightarrow>
          (tok, w\<lparr>tick := tick w + 3, tokens := tm, sent := sent w @ reqs\<rparr>))"

definition bearer :: "env \<Rightarrow> json \<Rightarrow> string" where
  "bearer e tok = (case tok of JStr s \<Rightarrow> s | _ \<Rightarrow> str_json e tok)"

definition multipart_body :: "string \<Rightarrow> string \<Rightarrow> string \<Rightarrow> string" where
  "multipart_body boundary filename dicom_bytes =
     ''--'' @ boundary @ crlf
     @ ''Content-Type: application/dicom'' @ crlf
     @ ''Content-Disposition: attachment; filename='' @ dquote @ filename @ dquote @ crlf @ crlf
     @ dicom_bytes
     @ crlf @ ''--'' @ boundary @ ''--'' @ crlf"

definition stow_request :: "env \<Rightarrow> config \<Rightarrow> string \<Rightarrow> string \<Rightarrow> string \<Rightarrow> json
    \<Rightarrow> http_request" where
  "stow_request e cfg boundary dicom_bytes filename tok =
     \<lparr>req_url = orthanc_url cfg @ ''/dicom-web/studies'',
      req_form = [],
      req_body = multipart_body boundary filename dicom_bytes,
      req_headers =
        [(''Content-Type'',
          ''multipart/related; type='' @ dquote @ ''application/dicom'' @ dquote
            @ ''; boundary='' @ boundary),
         (''Accept'', ''application/dicom+json'')]
        @ (if truthy tok then [(''Authorization'', ''Bearer '' @ bearer e tok)] else []),
      req_timeout = 120\<rparr>"

text \<open>\<^verbatim>\<open>DicomProcessor._upload_stow_rs\<close>.\<close>

definition upload_stow_rs :: "env \<Rightarrow> config \<Rightarrow> string \<Rightarrow> string \<Rightarrow> world
    \<Rightarrow> (exn + unit) \<times> world" where
  "upload_stow_rs e cfg dicom_bytes filename w =
     (let boundary = md5_hex e (str_float e (clock e (tick w)));
          w1 = w\<lparr>tick := tick w + 1\<rparr>
      in case get_token_w e cfg w1 of
           (tok, w2) \<Rightarrow>
             (let req = stow_request e cfg boundary dicom_bytes filename tok;
                  w3 = w2\<lparr>tick := tick w2 + 1, sent := sent w2 @ [req]\<rparr>
              in case http e (tick w2) req of
                   Raised x \<Rightarrow> (Inl x, w3)
                 | Response status body text \<Rightarrow>
                     if status \<noteq> 200 \<and> status \<noteq> 202
                     then (Inl (Exn ''Exception''
                             (''STOW-RS failed: '' @ str_nat status @ '' - '' @ take 500 text)), w3)
                     else (Inr (), w3)))"

text \<open>\<^verbatim>\<open>DicomProcessor._process_single_file\<close>.\<close>

definition process_single_file :: "env \<Rightarrow> config \<Rightarrow> path \<Rightarrow> string \<Rightarrow> world
    \<Rightarrow> (exn + unit) \<times> world" where
  "process_single_file e cfg file_path clinic_id w =
     (let start_time = clock e (tick w);
          w1 = w\<lparr>tick := tick w + 1\<rparr>
      in case read_file e file_path w1 of
           (Inl x, w2) \<Rightarrow> (Inl x, w2)
         | (Inr c, w2) \<Rightarrow>
             (case dcmread e c of
                Inl x \<Rightarrow>
                  if cls x = ''InvalidDicomError''
                  then (Inl (Exn ''ValueError'' (''Invalid DICOM file: '' @ msg x)), w2)
                  else (Inl x, w2)
              | Inr ds \<Rightarrow>
                  (case save_as e (dict_set ds institution_name clinic_id) of
                     Inl x \<Rightarrow> (Inl x, w2)
                   | Inr dicom_bytes \<Rightarrow>
                       (case upload_stow_rs e cfg dicom_bytes (basename file_path) w2 of
                          (Inl x, w3) \<Rightarrow> (Inl x, w3)
                        | (Inr u, w3) \<Rightarrow>
                            (Inr (), w3\<lparr>tick := tick w3 + 1,
                                        upload_duration :=
                                          upload_duration w3 @ [clock e (tick w3) - start_time]\<rparr>)))))"

subsection \<open>One study folder\<close>

text \<open>
  The loop over the discovered files, with the counters and the error list it builds.
  \<^verbatim>\<open>dicom_file.relative_to(study_path)\<close> in the handler raises \<^verbatim>\<open>ValueError\<close>
  for a file outside the study folder, and that exception leaves the loop.
\<close>

fun process_files :: "env \<Rightarrow> config \<Rightarrow> path \<Rightarrow> string \<Rightarrow> path list
    \<Rightarrow> nat \<times> nat \<times> (string \<times> string) list \<Rightarrow> world
    \<Rightarrow> (exn + nat \<times> nat \<times> (string \<times> string) list) \<times> world" where
  "process_files e cfg study_path clinic_id [] acc w = (Inr acc, w)"
| "process_files e cfg study_path clinic_id (dicom_file # rest) (success_count, error_count, errors) w =
     (case process_single_file e cfg dicom_file clinic_id w of
        (Inr u, w1) \<Rightarrow>
          process_files e cfg study_path clinic_id rest (success_count + 1, error_count, errors)
            (w1\<lparr>instances_uploaded := instances_uploaded w1 @ [clinic_id]\<rparr>)
      | (Inl x, w1) \<Rightarrow>
          (case relative_to dicom_file study_path of
             None \<Rightarrow> (Inl (Exn ''ValueError'' (path_str dicom_file)), w1)
           | Some rel \<Rightarrow>
               process_files e cfg study_path clinic_id rest
                 (success_count, error_count + 1, errors @ [(path_str rel, msg x)])
                 (log_event ''error'' ''Failed to process file'' w1)))"

definition count_import :: "string \<Rightarrow> string \<Rightarrow> world \<Rightarrow> world" where
  "count_import clinic_id status w = w\<lparr>imports_total := imports_total w @ [(clinic_id, status)]\<rparr>"

text \<open>The classification after the loop (the \<^verbatim>\<open>if error_count == 0\<close> chain).\<close>

definition classify :: "env \<Rightarrow> config \<Rightarrow> path \<Rightarrow> string \<Rightarrow> nat \<times> nat \<times> (string \<times> string) list
    \<Rightarrow> world \<Rightarrow> (exn + bool) \<times> world" where
  "classify e cfg study_path clinic_id counts w =
     (case counts of
        (success_count, error_count, errors) \<Rightarrow>
          if error_count = 0 then
            (case move_to_processed e cfg study_path clinic_id
                    (log_event ''info'' ''Study imported successfully'' w) of
               (Inl x, w1) \<Rightarrow> (Inl x, w1)
             | (Inr u, w1) \<Rightarrow> (Inr True, count_import clinic_id ''success'' w1))
          else if success_count > 0 then
            (case move_to_processed e cfg study_path clinic_id
                    (log_event ''warning'' ''Study partially imported'' w) of
               (Inl x, w1) \<Rightarrow> (Inl x, w1)
             | (Inr u, w1) \<Rightarrow> (Inr True, count_import clinic_id ''partial'' w1))
          else
            (case move_to_failed e cfg study_path clinic_id
                    (''All '' @ str_nat error_count @ '' files failed'') errors
                    (log_event ''error'' ''Study import failed completely'' w) of
               (Inl x, w1) \<Rightarrow> (Inl x, w1)
             | (Inr u, w1) \<Rightarrow> (Inr False, count_import clinic_id ''failed'' w1)))"

text \<open>The body of the \<^verbatim>\<open>try\<close> block of \<^verbatim>\<open>process_study_folder\<close>.\<close>

definition study_body :: "env \<Rightarrow> config \<Rightarrow> path \<Rightarrow> string \<Rightarrow> world \<Rightarrow> (exn + bool) \<times> world" where
  "study_body e cfg study_path clinic_id w =
     (case discover e study_path w of
        (Inl x, w1) \<Rightarrow> (Inl x, w1)
      | (Inr dicom_files, w1) \<Rightarrow>
          if dicom_files = [] then
            (case move_to_failed e cfg study_path clinic_id ''No DICOM files found'' []
                    (log_event ''warning'' ''No DICOM files found in study folder'' w1) of
               (Inl x, w2) \<Rightarrow> (Inl x, w2)
             | (Inr u, w2) \<Rightarrow> (Inr False, count_import clinic_id ''failed'' w2))
          else
            (case process_files e cfg study_path clinic_id dicom_files (0, 0, [])
                    (log_event ''info'' ''Found DICOM files'' w1) of
               (Inl x, w2) \<Rightarrow> (Inl x, w2)
             | (Inr counts, w2) \<Rightarrow> classify e cfg study_path clinic_id counts w2))"

text \<open>The \<^verbatim>\<open>except Exception\<close> handler of \<^verbatim>\<open>process_study_folder\<close>.\<close>

definition handle_unexpected :: "env \<Rightarrow> config \<Rightarrow> path \<Rightarrow> string \<Rightarrow> exn \<Rightarrow> world
    \<Rightarrow> (exn + bool) \<times> world" where
  "handle_unexpected e cfg study_path clinic_id x w =
     (case move_to_failed e cfg study_path clinic_id (msg x) []
             (log_event ''exception'' ''Unexpected error processing study'' w) of
        (Inl y, w1) \<Rightarrow> (Inl y, w1)
      | (Inr u, w1) \<Rightarrow> (Inr False, count_import clinic_id ''error'' w1))"

text \<open>The \<^verbatim>\<open>finally\<close> block, which runs on every way out.\<close>

definition leave :: "env \<Rightarrow> string \<Rightarrow> real \<Rightarrow> world \<Rightarrow> world" where
  "leave e clinic_id start_time w =
     w\<lparr>tick := tick w + 1,
       import_duration := import_duration w @ [(clinic_id, clock e (tick w) - start_time)],
       active_imports := active_imports w - 1\<rparr>"

definition enter :: "world \<Rightarrow> world" where
  "enter w = w\<lparr>tick := tick w + 1, active_imports := active_imports w + 1\<rparr>"

text \<open>
  \<^verbatim>\<open>DicomProcessor.process_study_folder\<close>. The result is \<open>Inr\<close> of the returned
  boolean, or \<open>Inl\<close> of the exception that leaves the function (one raised inside the
  handler).
\<close>

definition process_study_folder :: "env \<Rightarrow> config \<Rightarrow> path \<Rightarrow> string \<Rightarrow> world
    \<Rightarrow> (exn + bool) \<times> world" where
  "process_study_folder e cfg study_path clinic_id w =
     (let start_time = clock e (tick w) in
      case study_body e cfg study_path clinic_id (enter w) of
        (Inr b, w1) \<Rightarrow> (Inr b, leave e clinic_id start_time w1)
      | (Inl x, w1) \<Rightarrow>
          (case handle_unexpected e cfg study_path clinic_id x w1 of
             (r, w2) \<Rightarrow> (r, leave e clinic_id start_time w2)))"

subsection \<open>Sample environment and worlds used by the witnesses\<close>

text \<open>
  An environment without faults: the servers answer 200, the calendar stands still, and a
  file counts as DICOM when it starts with \<^verbatim>\<open>DICM\<close>. The stand-ins for
  \<^verbatim>\<open>pydicom\<close> read a dataset of two attributes and write it back.
\<close>

definition env0 :: env where
  "env0 = \<lparr>io_fault = (\<lambda>n. None),
            http = (\<lambda>n req. Response 200 None ''ok''),
            clock = (\<lambda>n. 1700000000),
            date_str = (\<lambda>n. ''2026-11-04''),
            time_str = (\<lambda>n. ''120000''),
            iso_str = (\<lambda>n. ''2026-11-04T12:00:00''),
            dcmread_meta = (\<lambda>c. case c of Bytes b \<Rightarrow> prefix ''DICM'' b | JsonDoc j \<Rightarrow> False),
            dcmread = (\<lambda>c. case c of
                          Bytes b \<Rightarrow> if prefix ''DICM'' b
                                     then Inr [((8, 128), ''Original Hospital''), ((16, 16), drop 4 b)]
                                     else Inl (Exn ''InvalidDicomError'' ''no DICM prefix'')
                        | JsonDoc j \<Rightarrow> Inl (Exn ''InvalidDicomError'' ''no DICM prefix'')),
            save_as = (\<lambda>ds. Inr (''DICM'' @ concat (map snd ds))),
            md5_hex = (\<lambda>s. s),
            str_float = (\<lambda>r. ''1700000000.0''),
            str_json = (\<lambda>j. ''json'')\<rparr>"

definition world_of :: "filesystem \<Rightarrow> world" where
  "world_of fsys =
     \<lparr>disk = fsys, tick = 0, logs = [], imports_total = [], instances_uploaded = [],
      active_imports = 0, import_duration = [], upload_duration = [], sent = [],
      tokens = \<lparr>token = JNull, token_expires = 0\<rparr>\<rparr>"

definition study1 :: path where
  "study1 = [''inbox'', ''clinicA'', ''study1'']"

text \<open>A study folder whose only file is a valid DICOM file named \<^verbatim>\<open>scan.Dcm\<close>.\<close>

definition fs_mixed_case :: filesystem where
  "fs_mixed_case = [([''inbox'', ''clinicA'', ''study1'', ''scan.Dcm''], File (Bytes ''DICMbob''))]"

subsection \<open>Where a study folder ends up\<close>

text \<open>
  \<open>moved_to before after study d\<close>: the study folder is gone from its place, and every
  entry that was in it is at the same place below \<open>d\<close>.
\<close>

definition moved_to :: "filesystem \<Rightarrow> filesystem \<Rightarrow> path \<Rightarrow> path \<Rightarrow> bool" where
  "moved_to before after study d =
     (\<not> path_exists after study \<and>
      list_all (\<lambda>en. prefix study (fst en) \<longrightarrow>
                       (d @ drop (length study) (fst en), snd en) \<in> set after) before)"

text \<open>
  \<open>has_error_record fsys dir clinic reason errors\<close>: the directory \<open>dir\<close> holds a file
  named \<^verbatim>\<open>*.error.json\<close> whose JSON object has this clinic, this reason and these errors.
\<close>

definition errors_json :: "(string \<times> string) list \<Rightarrow> json" where
  "errors_json errors =
     JArr (map (\<lambda>er. JObj [(''file'', JStr (fst er)), (''error'', JStr (snd er))]) errors)"

definition is_error_record :: "path \<Rightarrow> string \<Rightarrow> string \<Rightarrow> (string \<times> string) list
    \<Rightarrow> path \<times> node \<Rightarrow> bool" where
  "is_error_record dir clinic reason errors en =
     (case en of
        (p, File (JsonDoc (JObj kv))) \<Rightarrow>
          p \<noteq> [] \<and> butlast p = dir \<and> suffix ''.error.json'' (last p) \<and>
          map_of kv ''clinic_id'' = Some (JStr clinic) \<and>
          map_of kv ''reason'' = Some (JStr reason) \<and>
          map_of kv ''errors'' = Some (errors_json errors)
      | _ \<Rightarrow> False)"

definition has_error_record :: "filesystem \<Rightarrow> path \<Rightarrow> string \<Rightarrow> string \<Rightarrow> (string \<times> string) list
    \<Rightarrow> bool" where
  "has_error_record fsys dir clinic reason errors =
     list_ex (is_error_record dir clinic reason errors) fsys"

text \<open>The contents of the files of a filesystem, in the order of its entries.\<close>

definition file_contents :: "filesystem \<Rightarrow> content list" where
  "file_contents fsys = concat (map (\<lambda>en. case snd en of File c \<Rightarrow> [c] | Dir \<Rightarrow> []) fsys)"


definition fs_three :: filesystem where
  "fs_three = [([''inbox''], Dir), ([''processed''], Dir), ([''failed''], Dir),
               ([''inbox'', ''clinicA'', ''study1'', ''a.dcm''], File (Bytes ''DICMalice'')),
               ([''inbox'', ''clinicA'', ''study1'', ''series2'', ''b.dcm''], File (Bytes ''junk'')),
               ([''inbox'', ''clinicA'', ''study1'', ''c.DCM''], File (Bytes ''DICMcarol''))]"


text \<open>
  A study of two valid files, a study whose only file is no DICOM file, and an environment
  in which exactly the filesystem operation number \<open>k\<close> fails.
\<close>

definition fs_two :: filesystem where
  "fs_two = [([''inbox''], Dir), ([''processed''], Dir), ([''failed''], Dir),
             ([''inbox'', ''clinicA'', ''study1'', ''a.dcm''], File (Bytes ''DICMalice'')),
             ([''inbox'', ''clinicA'', ''study1'', ''c.DCM''], File (Bytes ''DICMcarol''))]"

definition fs_junk :: filesystem where
  "fs_junk = [([''inbox''], Dir), ([''processed''], Dir), ([''failed''], Dir),
              ([''inbox'', ''clinicA'', ''study1'', ''series2'', ''b.dcm''], File (Bytes ''junk''))]"

definition env_at :: "nat \<Rightarrow> env" where
  "env_at k = env0\<lparr>io_fault := (\<lambda>n. if n = k then Some (Exn ''PermissionError'' ''denied'')
                                       else None)\<rparr>"

section \<open>Properties of the readiness tracker\<close>

lemma dict_set_keys: "set (map fst (dict_set d k v)) = insert k (set (map fst d))"
  by (induction d k v rule: dict_set.induct) auto

lemma dict_set_distinct: "distinct (map fst d) \<Longrightarrow> distinct (map fst (dict_set d k v))"
proof (induction d k v rule: dict_set.induct)
  case (1 k v)
  then show ?case by simp
next
  case (2 k' v' d k v)
  then show ?case using dict_set_keys [of d k v] by auto
qed

lemma dict_set_twice: "dict_set (dict_set d k v) k v' = dict_set d k v'"
  by (induction d k v rule: dict_set.induct) auto

lemma dict_set_lookup: "map_of (dict_set d k v) k = Some v"
  by (induction d k v rule: dict_set.induct) auto

lemma dict_set_other: "k' \<noteq> k \<Longrightarrow> map_of (dict_set d k v) k' = map_of d k'"
  by (induction d k v rule: dict_set.induct) auto

lemma dict_set_count:
  "distinct (map fst d) \<Longrightarrow> length (filter (\<lambda>e. fst e = k) (dict_set d k v)) = 1"
proof (induction d k v rule: dict_set.induct)
  case (1 k v)
  then show ?case by simp
next
  case (2 k' v' d k v)
  show ?case
  proof (cases "k' = k")
    case True
    with 2 have "k \<notin> fst ` set d" by simp
    then have "filter (\<lambda>e. fst e = k) d = []" by (auto simp: filter_empty_conv)
    with True show ?thesis by simp
  next
    case False
    with 2 show ?thesis by simp
  qed
qed

lemma collect_expired_eq:
  "collect_expired cfg now items (todo, pend) =
     (todo @ map fst (filter (is_expired cfg now) items),
      filter (\<lambda>kv. fst kv \<notin> fst ` set (filter (is_expired cfg now) items)) pend)"
proof (induction items arbitrary: todo pend)
  case Nil
  then show ?case by simp
next
  case (Cons a items)
  obtain k ts where a: "a = (k, ts)" by (cases a)
  show ?case
    unfolding a using Cons [of "todo @ [k]" "dict_del pend k"] Cons [of todo pend]
    by (auto simp: is_expired_def dict_del_def intro!: filter_cong)
qed

lemma distinct_filter_keys:
  assumes "distinct (map fst d)"
  shows "filter (\<lambda>kv. fst kv \<notin> fst ` set (filter P d)) d = filter (\<lambda>kv. \<not> P kv) d"
proof (rule filter_cong [OF refl])
  fix kv assume kv: "kv \<in> set d"
  have "fst kv \<in> fst ` set (filter P d) \<longleftrightarrow> P kv"
  proof
    assume "fst kv \<in> fst ` set (filter P d)"
    then obtain e where e: "e \<in> set d" "P e" "fst e = fst kv" by auto
    with assms kv have "e = kv" by (metis eq_key_imp_eq_value prod.collapse)
    with e show "P kv" by simp
  next
    assume "P kv" with kv show "fst kv \<in> fst ` set (filter P d)" by auto
  qed
  then show "(fst kv \<notin> fst ` set (filter P d)) = (\<not> P kv)" by simp
qed

lemma study_key_relative:
  assumes "study_key cfg k"
  shows "\<exists>b. relative_to k (inbox_path cfg) = Some [k ! length (inbox_path cfg), b]"
proof -
  let ?n = "length (inbox_path cfg)"
  from assms have len: "length k = ?n + 2" and tk: "take ?n k = inbox_path cfg"
    by (simp_all add: study_key_def)
  have k: "k = inbox_path cfg @ drop ?n k" using tk append_take_drop_id [of ?n k] by simp
  then have pre: "prefix (inbox_path cfg) k" by (rule prefixI)
  have "length (drop ?n k) = Suc (Suc 0)" using len by simp
  then obtain a b where ab: "drop ?n k = [a, b]"
    unfolding length_Suc_conv by auto
  have "k ! ?n = a" using k ab by (metis nth_append_length)
  with pre ab show ?thesis by (simp add: relative_to_def)
qed

lemma submit_folders_eq:
  "list_all (study_key cfg) ks \<Longrightarrow>
   submit_folders cfg fs ks =
     map (\<lambda>k. (k, k ! length (inbox_path cfg))) (filter (path_exists fs) ks)"
proof (induction ks)
  case Nil
  then show ?case by simp
next
  case (Cons k ks)
  then obtain b where "relative_to k (inbox_path cfg) = Some [k ! length (inbox_path cfg), b]"
    using study_key_relative [of cfg k] by auto
  with Cons show ?case by simp
qed

lemma dict_set_all:
  "list_all (\<lambda>e. P (fst e)) d \<Longrightarrow> P k \<Longrightarrow> list_all (\<lambda>e. P (fst e)) (dict_set d k v)"
  by (induction d k v rule: dict_set.induct) auto

lemma handle_new_folder_wf:
  assumes "wf_pending cfg (pending_folders h)"
  shows "wf_pending cfg (pending_folders (handle_new_folder cfg now p h))"
proof (cases "relative_to p (inbox_path cfg)")
  case None
  with assms show ?thesis by (simp add: handle_new_folder_def)
next
  case (Some parts)
  show ?thesis
  proof (cases "length parts < 2")
    case True
    with Some assms show ?thesis by (simp add: handle_new_folder_def)
  next
    case False
    have "study_key cfg (inbox_path cfg @ [parts ! 0, parts ! 1])"
      by (simp add: study_key_def)
    with assms Some False show ?thesis
      by (simp add: handle_new_folder_def wf_pending_def Let_def dict_set_distinct dict_set_all)
  qed
qed

lemma note_all_other:
  "relative_to p (inbox_path cfg) = None \<or>
   (\<exists>parts. relative_to p (inbox_path cfg) = Some parts \<and> length parts < 2)
   \<Longrightarrow> note_all cfg ts p h = h"
  by (induction ts) (auto simp: handle_new_folder_def)

lemma note_all_study:
  assumes "relative_to p (inbox_path cfg) = Some parts" and "2 \<le> length parts" and "ts \<noteq> []"
  shows "pending_folders (note_all cfg ts p h) =
           dict_set (pending_folders h) (inbox_path cfg @ [parts ! 0, parts ! 1]) (last ts)"
  using assms(3)
proof (induction ts arbitrary: h)
  case Nil
  then show ?case by simp
next
  case (Cons t ts)
  let ?k = "inbox_path cfg @ [parts ! 0, parts ! 1]"
  have step: "pending_folders (handle_new_folder cfg t p h) = dict_set (pending_folders h) ?k t"
    using assms(1,2) by (simp add: handle_new_folder_def Let_def)
  show ?case
  proof (cases "ts = []")
    case True
    with step show ?thesis by simp
  next
    case False
    with Cons.IH [of "handle_new_folder cfg t p h"] step show ?thesis
      by (simp add: dict_set_twice)
  qed
qed

text \<open>
  Claim C8. For a path with at least two segments below the inbox root, any number
  \<open>N \<ge> 1\<close> of calls of \<^verbatim>\<open>_handle_new_folder\<close> leaves the pending dictionary as one
  assignment of the latest time stamp to the key \<^verbatim>\<open>{inbox}/{seg0}/{seg1}\<close> would: the
  key is present once and holds the time of the last call. A path with fewer than two
  segments, or outside the inbox root, leaves the handler unchanged.
\<close>

theorem note_idempotent:
  "(\<forall>parts. relative_to p (inbox_path cfg) = Some parts \<and> 2 \<le> length parts \<and> ts \<noteq> [] \<longrightarrow>
      (let key = inbox_path cfg @ [parts ! 0, parts ! 1];
           pend = pending_folders (note_all cfg ts p h)
       in pend = dict_set (pending_folders h) key (last ts) \<and>
          dict_get pend key = Some (last ts) \<and>
          (distinct (map fst (pending_folders h)) \<longrightarrow>
             length (filter (\<lambda>e. fst e = key) pend) = 1))) \<and>
   (relative_to p (inbox_path cfg) = None \<or>
    (\<exists>parts. relative_to p (inbox_path cfg) = Some parts \<and> length parts < 2)
      \<longrightarrow> note_all cfg ts p h = h)"
  using note_all_other [of p cfg ts h] note_all_study [of p cfg _ ts h]
  by (auto simp: Let_def dict_get_def dict_set_lookup dict_set_count)

text \<open>
  Claim C7. At time \<open>now\<close>, \<^verbatim>\<open>check_pending_folders\<close> removes from the pending
  dictionary exactly the entries with \<open>now - ts \<ge> cooldown_seconds\<close> and keeps every other
  entry; of the removed folders, those that still exist are submitted to the worker pool,
  each with the clinic that is the first segment of its key below the inbox root, and those
  that no longer exist are skipped.
\<close>

theorem drain_promotes_expired:
  assumes "wf_pending cfg (pending_folders h)"
  shows "check_pending_folders cfg now fs h =
     (h\<lparr>pending_folders := filter (\<lambda>e. \<not> is_expired cfg now e) (pending_folders h),
        pending_imports := length (filter (\<lambda>e. \<not> is_expired cfg now e) (pending_folders h))\<rparr>,
      map (\<lambda>k. (k, k ! length (inbox_path cfg)))
        (filter (path_exists fs) (map fst (filter (is_expired cfg now) (pending_folders h)))))"
proof -
  let ?d = "pending_folders h"
  let ?ex = "filter (is_expired cfg now) ?d"
  from assms have dist: "distinct (map fst ?d)" and keys: "list_all (\<lambda>e. study_key cfg (fst e)) ?d"
    by (simp_all add: wf_pending_def)
  have c: "collect_expired cfg now ?d ([], ?d) = (map fst ?ex, filter (\<lambda>e. \<not> is_expired cfg now e) ?d)"
    unfolding collect_expired_eq distinct_filter_keys [OF dist] by simp
  have "list_all (study_key cfg) (map fst ?ex)"
    using keys by (auto simp: list_all_iff)
  then have s: "submit_folders cfg fs (map fst ?ex) =
      map (\<lambda>k. (k, k ! length (inbox_path cfg))) (filter (path_exists fs) (map fst ?ex))"
    by (rule submit_folders_eq)
  show ?thesis
    by (simp add: check_pending_folders_def c s)
qed

text \<open>Three events at times 0, 30 and 55 for one study folder, and three for a clinic folder.\<close>

theorem note_idempotent_witness:
  "relative_to [''inbox'', ''clinicA'', ''study1'', ''img.dcm''] (inbox_path cfg0)
      = Some [''clinicA'', ''study1'', ''img.dcm''] \<and>
   pending_folders (note_all cfg0 [0, 30, 55] [''inbox'', ''clinicA'', ''study1'', ''img.dcm'']
      \<lparr>pending_folders = [], pending_imports = 0\<rparr>)
      = [([''inbox'', ''clinicA'', ''study1''], 55)] \<and>
   note_all cfg0 [0, 30, 55] [''inbox'', ''clinicA''] \<lparr>pending_folders = [], pending_imports = 0\<rparr>
      = \<lparr>pending_folders = [], pending_imports = 0\<rparr>"
  using note_idempotent [of "[''inbox'', ''clinicA'', ''study1'', ''img.dcm'']" cfg0 "[0, 30, 55]"
      "\<lparr>pending_folders = [], pending_imports = 0\<rparr>"]
    note_idempotent [of "[''inbox'', ''clinicA'']" cfg0 "[0, 30, 55]"
      "\<lparr>pending_folders = [], pending_imports = 0\<rparr>"]
  by (simp add: cfg0_def relative_to_def Let_def)

text \<open>
  A drain at time 115 with a cooldown of 60 seconds: one folder is promoted, one is still
  cooling down, and one has expired but is gone from the disk.
\<close>

theorem drain_promotes_expired_witness:
  "wf_pending cfg0 (pending_folders h0) \<and>
   check_pending_folders cfg0 115 fs0 h0 =
     (\<lparr>pending_folders = [([''inbox'', ''clinicA'', ''study2''], 100)], pending_imports = 1\<rparr>,
      [([''inbox'', ''clinicA'', ''study1''], ''clinicA'')])"
proof -
  have wf: "wf_pending cfg0 (pending_folders h0)"
    by (simp add: wf_pending_def study_key_def cfg0_def h0_def)
  show ?thesis
    using wf drain_promotes_expired [OF wf, of 115 fs0]
    by (simp add: is_expired_def cfg0_def h0_def fs0_def path_exists_def)
qed

section \<open>Properties of the token manager\<close>

lemma refresh_token_no_secret:
  "keycloak_client_secret cfg = [] \<Longrightarrow> refresh_token cfg net now tm = (JNull, tm, [])"
  by (simp add: refresh_token_def)

lemma refresh_token_fails:
  "keycloak_client_secret cfg \<noteq> [] \<Longrightarrow> refresh_fails (net (token_request cfg))
   \<Longrightarrow> refresh_token cfg net now tm = (JNull, tm, [token_request cfg])"
  by (auto simp: refresh_token_def refresh_fails_def
      split: http_result.splits option.splits json.splits)

lemma refresh_token_stores:
  "keycloak_client_secret cfg \<noteq> [] \<Longrightarrow>
   net (token_request cfg) = Response status (Some (JObj data)) text \<Longrightarrow>
   \<not> raise_for_status status \<Longrightarrow>
   map_of data ''access_token'' = Some tok \<Longrightarrow>
   expiry_after now data = Some expires \<Longrightarrow>
   refresh_token cfg net now tm =
     (tok, tm\<lparr>token := tok, token_expires := expires\<rparr>, [token_request cfg])"
  by (simp add: refresh_token_def)

lemma expiry_after_absent:
  "map_of data ''expires_in'' = None \<Longrightarrow> expiry_after now data = Some (now + 300)"
  by (simp add: expiry_after_def)

lemma expiry_after_int:
  "map_of data ''expires_in'' = Some (JInt n) \<Longrightarrow> \<not> int_overflows_float n \<Longrightarrow>
   expiry_after now data = Some (now + real_of_int n)"
  by (simp add: expiry_after_def)

lemma expiry_after_float:
  "map_of data ''expires_in'' = Some (JNum x) \<Longrightarrow> expiry_after now data = Some (now + x)"
  by (simp add: expiry_after_def)

text \<open>
  Claim C4, as the code has it. \<^verbatim>\<open>get_token\<close> returns the cached token, sends nothing
  and changes nothing when a non-empty token is stored and the clock is strictly more than
  60 seconds before the stored expiry. Otherwise it refreshes: with an empty client secret
  it returns none and sends nothing; else it sends the one token request, and on a 2xx
  response whose JSON object holds an access token it stores the token and returns it,
  with the expiry \<open>now + 300\<close> when the object has no \<^verbatim>\<open>expires_in\<close>, \<open>now + n\<close> when
  \<^verbatim>\<open>expires_in\<close> is an integer \<open>n\<close> within the float range, and \<open>now + x\<close> when it is
  a float \<open>x\<close>; on a transport error, a 4xx or 5xx status, a body that is no JSON object
  or has no access token it returns none and leaves the stored pair as it was.
\<close>

theorem get_token_contract:
  "(truthy (token tm) \<and> now1 < token_expires tm - 60 \<longrightarrow>
      get_token cfg net now1 now2 tm = (token tm, tm, [])) \<and>
   (\<not> (truthy (token tm) \<and> now1 < token_expires tm - 60) \<longrightarrow>
      (keycloak_client_secret cfg = [] \<longrightarrow>
         get_token cfg net now1 now2 tm = (JNull, tm, [])) \<and>
      (keycloak_client_secret cfg \<noteq> [] \<longrightarrow>
         (\<forall>status data text tok.
            net (token_request cfg) = Response status (Some (JObj data)) text \<and>
            200 \<le> status \<and> status < 300 \<and>
            map_of data ''access_token'' = Some tok \<longrightarrow>
            (map_of data ''expires_in'' = None \<longrightarrow>
               get_token cfg net now1 now2 tm =
                 (tok, \<lparr>token = tok, token_expires = now2 + 300\<rparr>, [token_request cfg])) \<and>
            (\<forall>n. map_of data ''expires_in'' = Some (JInt n) \<and> \<bar>n\<bar> < 2 ^ 1024 - 2 ^ 970 \<longrightarrow>
               get_token cfg net now1 now2 tm =
                 (tok, \<lparr>token = tok, token_expires = now2 + real_of_int n\<rparr>,
                  [token_request cfg])) \<and>
            (\<forall>x. map_of data ''expires_in'' = Some (JNum x) \<longrightarrow>
               get_token cfg net now1 now2 tm =
                 (tok, \<lparr>token = tok, token_expires = now2 + x\<rparr>, [token_request cfg]))) \<and>
         (refresh_fails (net (token_request cfg)) \<longrightarrow>
            get_token cfg net now1 now2 tm = (JNull, tm, [token_request cfg]))))"
proof -
  have ok: "\<not> raise_for_status status" if "200 \<le> status" "status < 300" for status
    using that by (simp add: raise_for_status_def)
  have cached: "get_token cfg net now1 now2 tm = (token tm, tm, [])"
    if "truthy (token tm) \<and> now1 < token_expires tm - 60"
    using that by (simp add: get_token_def)
  have refresh: "get_token cfg net now1 now2 tm = refresh_token cfg net now2 tm"
    if "\<not> (truthy (token tm) \<and> now1 < token_expires tm - 60)"
    using that by (auto simp: get_token_def)
  have stores: "refresh_token cfg net now2 tm =
      (tok, \<lparr>token = tok, token_expires = expires\<rparr>, [token_request cfg])"
    if "keycloak_client_secret cfg \<noteq> []"
      "net (token_request cfg) = Response status (Some (JObj data)) t"
      "200 \<le> status" "status < 300" "map_of data ''access_token'' = Some tok"
      "expiry_after now2 data = Some expires"
    for status data t tok expires
    using refresh_token_stores [of cfg net status data t tok now2 expires tm]
      that(1,2,5,6) ok [OF that(3,4)]
    by simp
  have small: "\<not> int_overflows_float n" if "\<bar>n\<bar> < 2 ^ 1024 - 2 ^ 970" for n
    using that by (simp add: int_overflows_float_def)
  show ?thesis
  proof (cases "truthy (token tm) \<and> now1 < token_expires tm - 60")
    case True
    then show ?thesis using cached by simp
  next
    case False
    note r = refresh [OF False]
    show ?thesis
    proof (cases "keycloak_client_secret cfg = []")
      case True
      then have "get_token cfg net now1 now2 tm = (JNull, tm, [])"
        using r refresh_token_no_secret [of cfg net now2 tm] by simp
      with True False show ?thesis by blast
    next
      case secret: False
      have "get_token cfg net now1 now2 tm = (JNull, tm, [token_request cfg])"
        if "refresh_fails (net (token_request cfg))"
        using r refresh_token_fails [of cfg net now2 tm] secret that by simp
      moreover have "get_token cfg net now1 now2 tm =
          (tok, \<lparr>token = tok, token_expires = now2 + 300\<rparr>, [token_request cfg])"
        if "net (token_request cfg) = Response status (Some (JObj data)) t"
          "200 \<le> status" "status < 300" "map_of data ''access_token'' = Some tok"
          "map_of data ''expires_in'' = None"
        for status data t tok
        using r stores [OF secret that(1-4) expiry_after_absent [OF that(5)]] by simp
      moreover have "get_token cfg net now1 now2 tm =
          (tok, \<lparr>token = tok, token_expires = now2 + real_of_int n\<rparr>, [token_request cfg])"
        if "net (token_request cfg) = Response status (Some (JObj data)) t"
          "200 \<le> status" "status < 300" "map_of data ''access_token'' = Some tok"
          "map_of data ''expires_in'' = Some (JInt n)" "\<bar>n\<bar> < 2 ^ 1024 - 2 ^ 970"
        for status data t tok n
        using r stores [OF secret that(1-4) expiry_after_int [OF that(5) small [OF that(6)]]]
        by simp
      moreover have "get_token cfg net now1 now2 tm =
          (tok, \<lparr>token = tok, token_expires = now2 + x\<rparr>, [token_request cfg])"
        if "net (token_request cfg) = Response status (Some (JObj data)) t"
          "200 \<le> status" "status < 300" "map_of data ''access_token'' = Some tok"
          "map_of data ''expires_in'' = Some (JNum x)"
        for status data t tok x
        using r stores [OF secret that(1-4) expiry_after_float [OF that(5)]] by simp
      ultimately show ?thesis using False secret by blast
    qed
  qed
qed

text \<open>
  The cases at concrete inputs, with a stored token that expires at time 1000: the cached
  token at time 900; refreshes at time 950, stored at time 951, that bring a lifetime of
  120 seconds, a lifetime of 3600.0 seconds, and no lifetime; a refresh that meets a 503;
  and an empty client secret.
\<close>

theorem get_token_contract_witness:
  "get_token cfg0 net_down 900 900 tm0 = (JStr ''cached'', tm0, []) \<and>
   get_token cfg0 net_ok 950 951 tm0 =
     (JStr ''fresh'', \<lparr>token = JStr ''fresh'', token_expires = 1071\<rparr>, [token_request cfg0]) \<and>
   get_token cfg0 net_float 950 951 tm0 =
     (JStr ''brief'', \<lparr>token = JStr ''brief'', token_expires = 4551\<rparr>, [token_request cfg0]) \<and>
   get_token cfg0 net_no_lifetime 950 951 tm0 =
     (JStr ''plain'', \<lparr>token = JStr ''plain'', token_expires = 1251\<rparr>, [token_request cfg0]) \<and>
   get_token cfg0 net_down 950 951 tm0 = (JNull, tm0, [token_request cfg0]) \<and>
   get_token (cfg0\<lparr>keycloak_client_secret := []\<rparr>) net_ok 950 951 tm0 = (JNull, tm0, [])"
proof -
  have a: "truthy (token tm0) \<and> (900::real) < token_expires tm0 - 60"
    by (simp add: tm0_def)
  have b: "\<not> (truthy (token tm0) \<and> (950::real) < token_expires tm0 - 60)"
    by (simp add: tm0_def)
  have s: "keycloak_client_secret cfg0 \<noteq> []"
    by (simp add: cfg0_def)
  have f: "refresh_fails (net_down (token_request cfg0))"
    by (simp add: refresh_fails_def net_down_def raise_for_status_def)
  have small: "\<bar>120::int\<bar> < 2 ^ 1024 - 2 ^ 970"
    by simp
  have 1: "get_token cfg0 net_down 900 900 tm0 = (JStr ''cached'', tm0, [])"
    using get_token_contract [of tm0 900 cfg0 net_down 900] a by (simp add: tm0_def)
  have 2: "get_token cfg0 net_ok 950 951 tm0 =
     (JStr ''fresh'', \<lparr>token = JStr ''fresh'', token_expires = 1071\<rparr>, [token_request cfg0])"
    using get_token_contract [of tm0 950 cfg0 net_ok 951] b s small
    by (simp add: net_ok_def)
  have 3: "get_token cfg0 net_float 950 951 tm0 =
     (JStr ''brief'', \<lparr>token = JStr ''brief'', token_expires = 4551\<rparr>, [token_request cfg0])"
    using get_token_contract [of tm0 950 cfg0 net_float 951] b s
    by (simp add: net_float_def)
  have 4: "get_token cfg0 net_no_lifetime 950 951 tm0 =
     (JStr ''plain'', \<lparr>token = JStr ''plain'', token_expires = 1251\<rparr>, [token_request cfg0])"
    using get_token_contract [of tm0 950 cfg0 net_no_lifetime 951] b s
    by (simp add: net_no_lifetime_def)
  have 5: "get_token cfg0 net_down 950 951 tm0 = (JNull, tm0, [token_request cfg0])"
    using get_token_contract [of tm0 950 cfg0 net_down 951] b s f by simp
  have 6: "get_token (cfg0\<lparr>keycloak_client_secret := []\<rparr>) net_ok 950 951 tm0 = (JNull, tm0, [])"
    using get_token_contract [of tm0 950 "cfg0\<lparr>keycloak_client_secret := []\<rparr>" net_ok 951] b
    by simp
  from 1 2 3 4 5 6 show ?thesis by simp
qed

text \<open>
  The claim as written fails at the boundary: exactly 60 seconds before the expiry the
  cached token is not returned, the manager refreshes, and a failing refresh yields none.
\<close>

theorem get_token_boundary_counterexample:
  "(940::real) \<le> token_expires tm0 - 60 \<and>
   fst (get_token cfg0 net_down 940 940 tm0) \<noteq> token tm0"
  by (simp add: get_token_def refresh_token_def tm0_def cfg0_def net_down_def
      raise_for_status_def)

text \<open>
  A lifetime that cannot be added to the clock makes the sum raise after the token was
  assigned: the call returns none, and the stored token is the new one with the old
  expiry. That is so for a lifetime that is not a number, and for an integer beyond the
  float range.
\<close>

lemma refresh_token_partial_update:
  "keycloak_client_secret cfg \<noteq> [] \<Longrightarrow>
   net (token_request cfg) = Response 200
     (Some (JObj [(''access_token'', tok), (''expires_in'', JStr ''300'')])) text \<Longrightarrow>
   refresh_token cfg net now tm = (JNull, tm\<lparr>token := tok\<rparr>, [token_request cfg])"
  by (simp add: refresh_token_def raise_for_status_def expiry_after_def)

lemma refresh_token_overflow:
  "keycloak_client_secret cfg \<noteq> [] \<Longrightarrow>
   net (token_request cfg) = Response 200
     (Some (JObj [(''access_token'', tok), (''expires_in'', JInt (10 ^ 309))])) text \<Longrightarrow>
   refresh_token cfg net now tm = (JNull, tm\<lparr>token := tok\<rparr>, [token_request cfg])"
  by (simp add: refresh_token_def raise_for_status_def expiry_after_def int_overflows_float_def)

section \<open>Properties of the filesystem operations\<close>

lemma path_exists_iff: "path_exists fsys p \<longleftrightarrow> (\<exists>e \<in> set fsys. prefix p (fst e))"
  by (simp add: path_exists_def list_ex_iff)

lemma rename_entry_not_under:
  assumes "\<not> prefix src d" and "\<not> path_exists fsys d" and "en \<in> set fsys"
  shows "\<not> prefix src (fst (rename_entry src d en))"
proof (cases "prefix src (fst en)")
  case False
  then show ?thesis by (simp add: rename_entry_def)
next
  case True
  show ?thesis
  proof
    assume a: "prefix src (fst (rename_entry src d en))"
    with True have "prefix src (d @ drop (length src) (fst en))"
      by (simp add: rename_entry_def)
    then have "prefix src d \<or> prefix d src"
      by (meson prefix_append prefix_order.dual_order.refl prefix_same_cases prefixI)
    with assms(1) have "prefix d src" by simp
    with True have "prefix d (fst en)" by (metis prefix_order.trans)
    with assms(3) have "path_exists fsys d" by (auto simp: path_exists_iff)
    with assms(2) show False by simp
  qed
qed

lemma shutil_move_ok:
  assumes "shutil_move e src dst w = (Inr d, w')"
  shows "disk w' = map (rename_entry src d) (disk w)"
    and "\<not> prefix src d" and "\<not> path_exists (disk w) d" and "path_exists (disk w) src"
    and "d = dst \<or> d = dst @ [basename src]"
    and "logs w' = logs w" and "imports_total w' = imports_total w" and "sent w' = sent w"
    and "instances_uploaded w' = instances_uploaded w"
  using assms
  by (auto simp: shutil_move_def Let_def split: option.splits if_splits)

lemma shutil_move_gone:
  assumes "shutil_move e src dst w = (Inr d, w')"
  shows "\<not> path_exists (disk w') src"
proof
  assume "path_exists (disk w') src"
  then obtain en where en: "en \<in> set (disk w)" "prefix src (fst (rename_entry src d en))"
    using shutil_move_ok(1) [OF assms] by (auto simp: path_exists_iff)
  with rename_entry_not_under [OF shutil_move_ok(2) [OF assms] shutil_move_ok(3) [OF assms]]
  show False by blast
qed

lemma shutil_move_failed:
  assumes "shutil_move e src dst w = (Inl x, w')"
  shows "disk w' = disk w" and "logs w' = logs w" and "imports_total w' = imports_total w"
    and "sent w' = sent w" and "instances_uploaded w' = instances_uploaded w"
  using assms
  by (auto simp: shutil_move_def Let_def split: option.splits if_splits)

lemma mkdir_parents_frame:
  assumes "mkdir_parents e p w = (r, w')"
  shows "logs w' = logs w" and "imports_total w' = imports_total w" and "sent w' = sent w"
    and "instances_uploaded w' = instances_uploaded w"
    and "disk w' = disk w \<or> disk w' = disk w @ [(p, Dir)]"
  using assms
  by (auto simp: mkdir_parents_def Let_def split: option.splits if_splits)

lemma mkdir_parents_failed:
  assumes "mkdir_parents e p w = (Inl x, w')"
  shows "disk w' = disk w"
  using assms
  by (auto simp: mkdir_parents_def Let_def split: option.splits if_splits)

lemma write_json_frame:
  assumes "write_json e p doc w = (r, w')"
  shows "logs w' = logs w" and "imports_total w' = imports_total w" and "sent w' = sent w"
    and "instances_uploaded w' = instances_uploaded w"
  using assms
  by (auto simp: write_json_def Let_def split: option.splits if_splits)

lemma write_json_ok:
  assumes "write_json e p doc w = (Inr u, w')"
  shows "disk w' = filter (\<lambda>en. fst en \<noteq> p) (disk w) @ [(p, File (JsonDoc doc))]"
  using assms
  by (auto simp: write_json_def Let_def split: option.splits if_splits)

lemma write_json_failed:
  assumes "write_json e p doc w = (Inl x, w')"
  shows "disk w' = disk w"
  using assms
  by (auto simp: write_json_def Let_def split: option.splits if_splits)

lemma dest_path_of_frame:
  assumes "dest_path_of e dest_dir study_path w = (dest_path, w')"
  shows "disk w' = disk w" and "logs w' = logs w" and "imports_total w' = imports_total w"
    and "sent w' = sent w" and "instances_uploaded w' = instances_uploaded w"
    and "\<exists>nm. dest_path = dest_dir @ [basename study_path @ nm]"
  using assms
  by (auto simp: dest_path_of_def Let_def split: if_splits)

lemma log_event_frame [simp]:
  "disk (log_event l ev w) = disk w" "tick (log_event l ev w) = tick w"
  "imports_total (log_event l ev w) = imports_total w" "sent (log_event l ev w) = sent w"
  "instances_uploaded (log_event l ev w) = instances_uploaded w"
  "logs (log_event l ev w) = logs w @ [(l, ev)]"
  by (simp_all add: log_event_def)

lemma count_import_frame [simp]:
  "disk (count_import c s w) = disk w" "logs (count_import c s w) = logs w"
  "sent (count_import c s w) = sent w"
  "instances_uploaded (count_import c s w) = instances_uploaded w"
  "imports_total (count_import c s w) = imports_total w @ [(c, s)]"
  by (simp_all add: count_import_def)

lemma move_to_processed_steps:
  assumes "move_to_processed e cfg study clinic w = (Inr u, w')"
  obtains w2 dp w3 d w4 where
    "mkdir_parents e (processed_path cfg @ [clinic, date_str e (tick w)])
       (w\<lparr>tick := tick w + 1\<rparr>) = (Inr (), w2)"
    "dest_path_of e (processed_path cfg @ [clinic, date_str e (tick w)]) study w2 = (dp, w3)"
    "shutil_move e study dp w3 = (Inr d, w4)"
    "w' = log_event ''info'' ''Study moved to processed'' w4"
  using assms
  by (auto simp: move_to_processed_def Let_def split: prod.splits sum.splits)

lemma move_to_processed_ok:
  assumes "move_to_processed e cfg study clinic w = (Inr u, w')"
  shows "\<not> path_exists (disk w') study"
    and "\<exists>d base. prefix (processed_path cfg @ [clinic, date_str e (tick w)]) d \<and>
           (base = disk w \<or>
            base = disk w @ [(processed_path cfg @ [clinic, date_str e (tick w)], Dir)]) \<and>
           disk w' = map (rename_entry study d) base"
    and "imports_total w' = imports_total w" and "sent w' = sent w"
    and "instances_uploaded w' = instances_uploaded w"
    and "logs w' = logs w @ [(''info'', ''Study moved to processed'')]"
proof -
  let ?dd = "processed_path cfg @ [clinic, date_str e (tick w)]"
  from assms obtain w2 dp w3 d w4 where
    mk: "mkdir_parents e ?dd (w\<lparr>tick := tick w + 1\<rparr>) = (Inr (), w2)" and
    dp: "dest_path_of e ?dd study w2 = (dp, w3)" and
    mv: "shutil_move e study dp w3 = (Inr d, w4)" and
    w': "w' = log_event ''info'' ''Study moved to processed'' w4"
    by (rule move_to_processed_steps)
  show "\<not> path_exists (disk w') study"
    using shutil_move_gone [OF mv] w' by simp
  have base: "disk w3 = disk w \<or> disk w3 = disk w @ [(?dd, Dir)]"
    using mkdir_parents_frame(5) [OF mk] dest_path_of_frame(1) [OF dp] by simp
  obtain nm where nm: "dp = ?dd @ [basename study @ nm]"
    using dest_path_of_frame(6) [OF dp] by blast
  have "prefix ?dd d"
    using shutil_move_ok(5) [OF mv] nm by (auto simp: prefix_def)
  moreover have "disk w' = map (rename_entry study d) (disk w3)"
    using shutil_move_ok(1) [OF mv] w' by simp
  ultimately show "\<exists>d base. prefix ?dd d \<and> (base = disk w \<or> base = disk w @ [(?dd, Dir)]) \<and>
           disk w' = map (rename_entry study d) base"
    using base by blast
  show "imports_total w' = imports_total w"
    using mkdir_parents_frame(2) [OF mk] dest_path_of_frame(3) [OF dp] shutil_move_ok(7) [OF mv] w'
    by simp
  show "sent w' = sent w"
    using mkdir_parents_frame(3) [OF mk] dest_path_of_frame(4) [OF dp] shutil_move_ok(8) [OF mv] w'
    by simp
  show "instances_uploaded w' = instances_uploaded w"
    using mkdir_parents_frame(4) [OF mk] dest_path_of_frame(5) [OF dp] shutil_move_ok(9) [OF mv] w'
    by simp
  show "logs w' = logs w @ [(''info'', ''Study moved to processed'')]"
    using mkdir_parents_frame(1) [OF mk] dest_path_of_frame(2) [OF dp] shutil_move_ok(6) [OF mv] w'
    by simp
qed

lemma move_to_processed_failed:
  assumes "move_to_processed e cfg study clinic w = (Inl x, w')"
  shows "imports_total w' = imports_total w" and "sent w' = sent w"
    and "instances_uploaded w' = instances_uploaded w" and "logs w' = logs w"
    and "path_exists (disk w') study = path_exists (disk w) study
         \<or> prefix study (processed_path cfg @ [clinic, date_str e (tick w)])"
proof -
  let ?dd = "processed_path cfg @ [clinic, date_str e (tick w)]"
  let ?w1 = "w\<lparr>tick := tick w + 1\<rparr>"
  obtain r2 w2 where mk: "mkdir_parents e ?dd ?w1 = (r2, w2)" by (cases "mkdir_parents e ?dd ?w1")
  obtain dp w3 where dp: "dest_path_of e ?dd study w2 = (dp, w3)"
    by (cases "dest_path_of e ?dd study w2")
  obtain r4 w4 where mv: "shutil_move e study dp w3 = (r4, w4)"
    by (cases "shutil_move e study dp w3")
  have fr: "imports_total w' = imports_total w \<and> sent w' = sent w \<and>
      instances_uploaded w' = instances_uploaded w \<and> logs w' = logs w \<and>
      (disk w' = disk w \<or> disk w' = disk w @ [(?dd, Dir)])"
  proof (cases r2)
    case (Inl y)
    then have "w' = w2" using assms mk by (simp add: move_to_processed_def Let_def)
    then show ?thesis
      using mkdir_parents_frame [OF mk] mkdir_parents_failed [OF mk [unfolded Inl]] by simp
  next
    case (Inr v)
    then obtain y where r4: "r4 = Inl y" and "w' = w4"
      using assms mk dp mv
      by (cases r4) (auto simp: move_to_processed_def Let_def)
    then show ?thesis
      using mkdir_parents_frame [OF mk] dest_path_of_frame [OF dp]
        shutil_move_failed [OF mv [unfolded r4]] by auto
  qed
  then show "imports_total w' = imports_total w" and "sent w' = sent w"
    and "instances_uploaded w' = instances_uploaded w" and "logs w' = logs w"
    by simp_all
  from fr show "path_exists (disk w') study = path_exists (disk w) study \<or> prefix study ?dd"
    by (auto simp: path_exists_iff)
qed

lemma move_to_failed_steps:
  assumes "move_to_failed e cfg study clinic reason errors w = (Inr u, w')"
  obtains w2 dp w3 d w4 w6 where
    "mkdir_parents e (failed_path cfg @ [clinic, date_str e (tick w)])
       (w\<lparr>tick := tick w + 1\<rparr>) = (Inr (), w2)"
    "dest_path_of e (failed_path cfg @ [clinic, date_str e (tick w)]) study w2 = (dp, w3)"
    "shutil_move e study dp w3 = (Inr d, w4)"
    "write_json e (failed_path cfg @ [clinic, date_str e (tick w), basename dp @ ''.error.json''])
       (error_log (iso_str e (tick w4)) study clinic reason errors)
       (w4\<lparr>tick := tick w4 + 1\<rparr>) = (Inr (), w6)"
    "w' = log_event ''warning'' ''Study moved to failed'' w6"
  using assms
  by (auto simp: move_to_failed_def Let_def split: prod.splits sum.splits)

lemma error_file_outside:
  assumes "\<not> prefix study d" and "d = dd @ [basename study @ nm] \<or> d = dd @ [basename study @ nm, b]"
  shows "\<not> prefix study (dd @ [basename study @ nm @ ''.error.json''])"
proof
  assume "prefix study (dd @ [basename study @ nm @ ''.error.json''])"
  then have "study = dd @ [basename study @ nm @ ''.error.json''] \<or> prefix study dd"
    by (simp add: prefix_snoc)
  then show False
  proof
    assume s: "study = dd @ [basename study @ nm @ ''.error.json'']"
    then have "study \<noteq> []" by auto
    then have "basename study = last study" by (simp add: basename_def)
    also have "last study = basename study @ nm @ ''.error.json''"
      by (subst s) simp
    finally have "length (basename study) = length (basename study @ nm @ ''.error.json'')"
      by simp
    then show False by simp
  next
    assume "prefix study dd"
    then have "prefix study d" using assms(2) by (auto simp: prefix_def)
    with assms(1) show False by simp
  qed
qed

lemma move_to_failed_ok:
  assumes "move_to_failed e cfg study clinic reason errors w = (Inr u, w')"
  shows "\<not> path_exists (disk w') study"
    and "\<exists>d base nm ts.
           (d = failed_path cfg @ [clinic, date_str e (tick w), basename study @ nm] \<or>
            d = failed_path cfg @ [clinic, date_str e (tick w), basename study @ nm, basename study]) \<and>
           (base = disk w \<or>
            base = disk w @ [(failed_path cfg @ [clinic, date_str e (tick w)], Dir)]) \<and>
           disk w' =
             filter (\<lambda>en. fst en \<noteq> failed_path cfg
                              @ [clinic, date_str e (tick w), basename study @ nm @ ''.error.json''])
               (map (rename_entry study d) base)
             @ [(failed_path cfg
                   @ [clinic, date_str e (tick w), basename study @ nm @ ''.error.json''],
                 File (JsonDoc (error_log ts study clinic reason errors)))]"
    and "imports_total w' = imports_total w" and "sent w' = sent w"
    and "instances_uploaded w' = instances_uploaded w"
    and "logs w' = logs w @ [(''warning'', ''Study moved to failed'')]"
proof -
  let ?dd = "failed_path cfg @ [clinic, date_str e (tick w)]"
  from assms obtain w2 dp w3 d w4 w6 where
    mk: "mkdir_parents e ?dd (w\<lparr>tick := tick w + 1\<rparr>) = (Inr (), w2)" and
    dp: "dest_path_of e ?dd study w2 = (dp, w3)" and
    mv: "shutil_move e study dp w3 = (Inr d, w4)" and
    wr: "write_json e (failed_path cfg @ [clinic, date_str e (tick w), basename dp @ ''.error.json''])
       (error_log (iso_str e (tick w4)) study clinic reason errors)
       (w4\<lparr>tick := tick w4 + 1\<rparr>) = (Inr (), w6)" and
    w': "w' = log_event ''warning'' ''Study moved to failed'' w6"
    by (rule move_to_failed_steps)
  obtain nm where nm: "dp = ?dd @ [basename study @ nm]"
    using dest_path_of_frame(6) [OF dp] by blast
  have bdp: "basename dp = basename study @ nm"
    using nm by (simp add: basename_def)
  let ?ef = "failed_path cfg @ [clinic, date_str e (tick w), basename study @ nm @ ''.error.json'']"
  have ef: "?ef = ?dd @ [basename study @ nm @ ''.error.json'']" by simp
  have d: "d = ?dd @ [basename study @ nm] \<or> d = ?dd @ [basename study @ nm, basename study]"
    using shutil_move_ok(5) [OF mv] nm by auto
  have out: "\<not> prefix study ?ef"
    unfolding ef using shutil_move_ok(2) [OF mv] d by (rule error_file_outside)
  have disk6: "disk w6 = filter (\<lambda>en. fst en \<noteq> ?ef) (disk w4)
      @ [(?ef, File (JsonDoc (error_log (iso_str e (tick w4)) study clinic reason errors)))]"
    using write_json_ok [OF wr] bdp by simp
  have gone4: "\<not> path_exists (disk w4) study" by (rule shutil_move_gone [OF mv])
  show "\<not> path_exists (disk w') study"
    using gone4 out disk6 w' by (auto simp: path_exists_iff)
  have base: "disk w3 = disk w \<or> disk w3 = disk w @ [(?dd, Dir)]"
    using mkdir_parents_frame(5) [OF mk] dest_path_of_frame(1) [OF dp] by simp
  have "disk w' = filter (\<lambda>en. fst en \<noteq> ?ef) (map (rename_entry study d) (disk w3))
      @ [(?ef, File (JsonDoc (error_log (iso_str e (tick w4)) study clinic reason errors)))]"
    using disk6 shutil_move_ok(1) [OF mv] w' by simp
  moreover have "d = failed_path cfg @ [clinic, date_str e (tick w), basename study @ nm] \<or>
      d = failed_path cfg @ [clinic, date_str e (tick w), basename study @ nm, basename study]"
    using d by simp
  ultimately show "\<exists>d base nm ts.
           (d = failed_path cfg @ [clinic, date_str e (tick w), basename study @ nm] \<or>
            d = failed_path cfg @ [clinic, date_str e (tick w), basename study @ nm, basename study]) \<and>
           (base = disk w \<or> base = disk w @ [(?dd, Dir)]) \<and>
           disk w' =
             filter (\<lambda>en. fst en \<noteq> failed_path cfg
                              @ [clinic, date_str e (tick w), basename study @ nm @ ''.error.json''])
               (map (rename_entry study d) base)
             @ [(failed_path cfg
                   @ [clinic, date_str e (tick w), basename study @ nm @ ''.error.json''],
                 File (JsonDoc (error_log ts study clinic reason errors)))]"
    using base by blast
  have wr': "write_json e ?ef (error_log (iso_str e (tick w4)) study clinic reason errors)
       (w4\<lparr>tick := tick w4 + 1\<rparr>) = (Inr (), w6)"
    using wr bdp by simp
  show "imports_total w' = imports_total w"
    using mkdir_parents_frame(2) [OF mk] dest_path_of_frame(3) [OF dp] shutil_move_ok(7) [OF mv]
      write_json_frame(2) [OF wr'] w' by simp
  show "sent w' = sent w"
    using mkdir_parents_frame(3) [OF mk] dest_path_of_frame(4) [OF dp] shutil_move_ok(8) [OF mv]
      write_json_frame(3) [OF wr'] w' by simp
  show "instances_uploaded w' = instances_uploaded w"
    using mkdir_parents_frame(4) [OF mk] dest_path_of_frame(5) [OF dp] shutil_move_ok(9) [OF mv]
      write_json_frame(4) [OF wr'] w' by simp
  show "logs w' = logs w @ [(''warning'', ''Study moved to failed'')]"
    using mkdir_parents_frame(1) [OF mk] dest_path_of_frame(2) [OF dp] shutil_move_ok(6) [OF mv]
      write_json_frame(1) [OF wr'] w' by simp
qed

lemma move_to_failed_logs:
  assumes "move_to_failed e cfg study clinic reason errors w = (r, w')"
  shows "set (logs w) \<subseteq> set (logs w')" and "imports_total w' = imports_total w"
proof -
  let ?dd = "failed_path cfg @ [clinic, date_str e (tick w)]"
  let ?w1 = "w\<lparr>tick := tick w + 1\<rparr>"
  obtain r2 w2 where mk: "mkdir_parents e ?dd ?w1 = (r2, w2)" by (cases "mkdir_parents e ?dd ?w1")
  obtain dp w3 where dp: "dest_path_of e ?dd study w2 = (dp, w3)"
    by (cases "dest_path_of e ?dd study w2")
  obtain r4 w4 where mv: "shutil_move e study dp w3 = (r4, w4)"
    by (cases "shutil_move e study dp w3")
  let ?ef = "?dd @ [basename dp @ ''.error.json'']"
  let ?doc = "error_log (iso_str e (tick w4)) study clinic reason errors"
  obtain r6 w6 where wr: "write_json e ?ef ?doc (w4\<lparr>tick := tick w4 + 1\<rparr>) = (r6, w6)"
    by (cases "write_json e ?ef ?doc (w4\<lparr>tick := tick w4 + 1\<rparr>)")
  have l2: "logs w2 = logs w" "imports_total w2 = imports_total w"
    using mkdir_parents_frame [OF mk] by simp_all
  have l3: "logs w3 = logs w" "imports_total w3 = imports_total w"
    using dest_path_of_frame [OF dp] l2 by simp_all
  have l4: "logs w4 = logs w" "imports_total w4 = imports_total w"
    using mv l3 by (auto simp: shutil_move_def Let_def split: option.splits if_splits)
  have l6: "logs w6 = logs w" "imports_total w6 = imports_total w"
    using write_json_frame [OF wr] l4 by simp_all
  have "w' = w2 \<or> w' = w4 \<or> w' = w6 \<or> w' = log_event ''warning'' ''Study moved to failed'' w6"
    using assms mk dp mv wr
    by (auto simp: move_to_failed_def Let_def split: sum.splits)
  then show "set (logs w) \<subseteq> set (logs w')" and "imports_total w' = imports_total w"
    using l2 l4 l6 by auto
qed

section \<open>Properties of the study processor\<close>

lemma leave_frame [simp]:
  "disk (leave e c t w) = disk w" "logs (leave e c t w) = logs w"
  "imports_total (leave e c t w) = imports_total w" "sent (leave e c t w) = sent w"
  "instances_uploaded (leave e c t w) = instances_uploaded w"
  by (simp_all add: leave_def)

lemma enter_frame [simp]:
  "disk (enter w) = disk w" "logs (enter w) = logs w"
  "imports_total (enter w) = imports_total w" "sent (enter w) = sent w"
  "instances_uploaded (enter w) = instances_uploaded w" "tick (enter w) = tick w + 1"
  by (simp_all add: enter_def)





lemma rename_entry_snd [simp]: "snd (rename_entry src d en) = snd en"
  by (simp add: rename_entry_def)

lemma file_contents_rename [simp]:
  "file_contents (map (rename_entry src d) fsys) = file_contents fsys"
  by (induction fsys) (simp_all add: file_contents_def)

lemma file_contents_mkdir [simp]: "file_contents (fsys @ [(p, Dir)]) = file_contents fsys"
  by (simp add: file_contents_def)

lemma moved_to_rename:
  assumes "\<not> path_exists after study" and "set (map (rename_entry study d) before) \<subseteq> set after"
  shows "moved_to before after study d"
proof -
  have "(d @ drop (length study) (fst en), snd en) \<in> set after"
    if "en \<in> set before" "prefix study (fst en)" for en
  proof -
    have "rename_entry study d en = (d @ drop (length study) (fst en), snd en)"
      using that(2) by (simp add: rename_entry_def)
    then show ?thesis using assms(2) that(1) by force
  qed
  with assms(1) show ?thesis by (auto simp: moved_to_def list_all_iff)
qed

lemma move_to_processed_moved:
  assumes "move_to_processed e cfg study clinic w = (Inr u, w')"
  shows "\<exists>d. prefix (processed_path cfg @ [clinic, date_str e (tick w)]) d \<and>
              moved_to (disk w) (disk w') study d"
    and "file_contents (disk w') = file_contents (disk w)"
proof -
  let ?dd = "processed_path cfg @ [clinic, date_str e (tick w)]"
  obtain d base where d: "prefix ?dd d" and base: "base = disk w \<or> base = disk w @ [(?dd, Dir)]"
    and w': "disk w' = map (rename_entry study d) base"
    using move_to_processed_ok(2) [OF assms] by blast
  have "set (map (rename_entry study d) (disk w)) \<subseteq> set (disk w')"
    using base w' by auto
  then have "moved_to (disk w) (disk w') study d"
    using move_to_processed_ok(1) [OF assms] by (rule moved_to_rename [rotated])
  with d show "\<exists>d. prefix ?dd d \<and> moved_to (disk w) (disk w') study d" by blast
  show "file_contents (disk w') = file_contents (disk w)"
    using base w' by auto
qed

lemma error_log_record:
  "is_error_record dd clinic reason errors
     (dd @ [nm @ ''.error.json''], File (JsonDoc (error_log ts study clinic reason errors)))"
  by (simp add: is_error_record_def error_log_def errors_json_def suffix_def)

lemma move_to_failed_quarantined:
  assumes "move_to_failed e cfg study clinic reason errors w = (Inr u, w')"
  shows "\<exists>d. prefix (failed_path cfg @ [clinic, date_str e (tick w)]) d \<and>
              moved_to (disk w) (disk w') study d"
    and "has_error_record (disk w') (failed_path cfg @ [clinic, date_str e (tick w)])
           clinic reason errors"
proof -
  let ?dd = "failed_path cfg @ [clinic, date_str e (tick w)]"
  obtain d base nm ts where
    d: "d = ?dd @ [basename study @ nm] \<or> d = ?dd @ [basename study @ nm, basename study]" and
    base: "base = disk w \<or> base = disk w @ [(?dd, Dir)]" and
    w': "disk w' =
         filter (\<lambda>en. fst en \<noteq> ?dd @ [basename study @ nm @ ''.error.json''])
           (map (rename_entry study d) base)
         @ [(?dd @ [basename study @ nm @ ''.error.json''],
             File (JsonDoc (error_log ts study clinic reason errors)))]"
    using move_to_failed_ok(2) [OF assms] by auto
  let ?ef = "?dd @ [basename study @ nm @ ''.error.json'']"
  have pd: "prefix ?dd d" using d by (auto simp: prefix_def)
  have nd: "\<not> prefix d ?ef" using d by (auto simp: prefix_snoc)
  have gone: "\<not> path_exists (disk w') study" by (rule move_to_failed_ok(1) [OF assms])
  have "(d @ drop (length study) (fst en), snd en) \<in> set (disk w')"
    if "en \<in> set (disk w)" "prefix study (fst en)" for en
  proof -
    have r: "rename_entry study d en = (d @ drop (length study) (fst en), snd en)"
      using that(2) by (simp add: rename_entry_def)
    have "en \<in> set base" using that(1) base by auto
    then have "rename_entry study d en \<in> set (map (rename_entry study d) base)" by simp
    moreover have "fst (rename_entry study d en) \<noteq> ?ef"
      using nd r by (metis fst_conv prefixI)
    ultimately show ?thesis using w' r by auto
  qed
  with gone have "moved_to (disk w) (disk w') study d"
    by (auto simp: moved_to_def list_all_iff)
  with pd show "\<exists>d. prefix ?dd d \<and> moved_to (disk w) (disk w') study d" by blast
  have "is_error_record ?dd clinic reason errors
     (?dd @ [(basename study @ nm) @ ''.error.json''],
      File (JsonDoc (error_log ts study clinic reason errors)))"
    by (rule error_log_record)
  then show "has_error_record (disk w') ?dd clinic reason errors"
    using w' by (auto simp: has_error_record_def list_ex_iff)
qed

lemma discover_frame:
  assumes "discover e study w = (r, w')"
  shows "disk w' = disk w" and "logs w' = logs w" and "imports_total w' = imports_total w"
    and "sent w' = sent w" and "instances_uploaded w' = instances_uploaded w"
  using assms
  by (auto simp: discover_def Let_def split: option.splits)

lemma get_token_w_frame:
  assumes "get_token_w e cfg w = (tok, w')"
  shows "disk w' = disk w" and "logs w' = logs w" and "imports_total w' = imports_total w"
    and "instances_uploaded w' = instances_uploaded w"
  using assms
  by (auto simp: get_token_w_def split: prod.splits)

lemma upload_stow_rs_frame:
  assumes "upload_stow_rs e cfg dicom_bytes filename w = (r, w')"
  shows "disk w' = disk w" and "logs w' = logs w" and "imports_total w' = imports_total w"
    and "instances_uploaded w' = instances_uploaded w"
proof -
  obtain tok w2 where g: "get_token_w e cfg (w\<lparr>tick := tick w + 1\<rparr>) = (tok, w2)"
    by (cases "get_token_w e cfg (w\<lparr>tick := tick w + 1\<rparr>)")
  let ?req = "stow_request e cfg (md5_hex e (str_float e (clock e (tick w)))) dicom_bytes filename tok"
  have "w' = w2\<lparr>tick := tick w2 + 1, sent := sent w2 @ [?req]\<rparr>"
    using assms g
    by (auto simp: upload_stow_rs_def Let_def split: http_result.splits if_splits)
  then show "disk w' = disk w" and "logs w' = logs w" and "imports_total w' = imports_total w"
    and "instances_uploaded w' = instances_uploaded w"
    using get_token_w_frame [OF g] by simp_all
qed

lemma read_file_frame:
  assumes "read_file e p w = (r, w')"
  shows "disk w' = disk w" and "logs w' = logs w" and "imports_total w' = imports_total w"
    and "instances_uploaded w' = instances_uploaded w"
  using assms
  by (auto simp: read_file_def Let_def split: option.splits)

lemma process_single_file_frame:
  assumes "process_single_file e cfg file_path clinic w = (r, w')"
  shows "disk w' = disk w" and "logs w' = logs w" and "imports_total w' = imports_total w"
    and "instances_uploaded w' = instances_uploaded w"
proof -
  let ?w1 = "w\<lparr>tick := tick w + 1\<rparr>"
  obtain rc w2 where rd: "read_file e file_path ?w1 = (rc, w2)"
    by (cases "read_file e file_path ?w1")
  have f2: "disk w2 = disk w" "logs w2 = logs w" "imports_total w2 = imports_total w"
    "instances_uploaded w2 = instances_uploaded w"
    using read_file_frame [OF rd] by simp_all
  have "disk w' = disk w \<and> logs w' = logs w \<and> imports_total w' = imports_total w \<and>
      instances_uploaded w' = instances_uploaded w"
  proof (cases rc)
    case (Inl x)
    then have "w' = w2" using assms rd by (simp add: process_single_file_def Let_def)
    with f2 show ?thesis by simp
  next
    case c: (Inr c)
    show ?thesis
    proof (cases "dcmread e c")
      case (Inl x)
      then have "w' = w2" using assms rd c
        by (auto simp: process_single_file_def Let_def split: if_splits)
      with f2 show ?thesis by simp
    next
      case ds: (Inr ds)
      show ?thesis
      proof (cases "save_as e (dict_set ds institution_name clinic)")
        case (Inl x)
        then have "w' = w2" using assms rd c ds
          by (simp add: process_single_file_def Let_def)
        with f2 show ?thesis by simp
      next
        case b: (Inr dicom_bytes)
        obtain ru w3 where up: "upload_stow_rs e cfg dicom_bytes (basename file_path) w2 = (ru, w3)"
          by (cases "upload_stow_rs e cfg dicom_bytes (basename file_path) w2")
        have "w' = w3 \<or> w' = w3\<lparr>tick := tick w3 + 1,
              upload_duration := upload_duration w3 @ [clock e (tick w3) - clock e (tick w)]\<rparr>"
          using assms rd c ds b up
          by (cases ru) (auto simp: process_single_file_def Let_def)
        then show ?thesis
          using upload_stow_rs_frame [OF up] f2 by auto
      qed
    qed
  qed
  then show "disk w' = disk w" and "logs w' = logs w" and "imports_total w' = imports_total w"
    and "instances_uploaded w' = instances_uploaded w"
    by simp_all
qed

lemma process_files_counts:
  assumes "process_files e cfg study clinic fps (s, f, errs) w = (Inr (s', f', errs'), w')"
  shows "s' + f' = s + f + length fps \<and> s \<le> s' \<and> f \<le> f' \<and>
         length errs' = length errs + (f' - f) \<and>
         disk w' = disk w \<and> imports_total w' = imports_total w \<and>
         instances_uploaded w' = instances_uploaded w @ replicate (s' - s) clinic"
  using assms
proof (induction fps arbitrary: s f errs w)
  case Nil
  then show ?case by simp
next
  case (Cons fp fps)
  obtain r w1 where p: "process_single_file e cfg fp clinic w = (r, w1)"
    by (cases "process_single_file e cfg fp clinic w")
  note fr = process_single_file_frame [OF p]
  show ?case
  proof (cases r)
    case (Inr u)
    let ?w = "w1\<lparr>instances_uploaded := instances_uploaded w1 @ [clinic]\<rparr>"
    have "process_files e cfg study clinic fps (s + 1, f, errs) ?w = (Inr (s', f', errs'), w')"
      using Cons.prems p Inr by simp
    from Cons.IH [OF this] have ih:
      "s' + f' = s + 1 + f + length fps" "s + 1 \<le> s'" "f \<le> f'"
      "length errs' = length errs + (f' - f)" "disk w' = disk ?w"
      "imports_total w' = imports_total ?w"
      "instances_uploaded w' = instances_uploaded ?w @ replicate (s' - (s + 1)) clinic"
      by simp_all
    have "s' - s = Suc (s' - (s + 1))" using ih(2) by simp
    then have "replicate (s' - s) clinic = clinic # replicate (s' - (s + 1)) clinic"
      by simp
    with ih fr show ?thesis by simp
  next
    case (Inl x)
    then obtain rel where rel: "relative_to fp study = Some rel"
      using Cons.prems p by (cases "relative_to fp study") auto
    let ?w = "log_event ''error'' ''Failed to process file'' w1"
    have "process_files e cfg study clinic fps (s, f + 1, errs @ [(path_str rel, msg x)]) ?w
        = (Inr (s', f', errs'), w')"
      using Cons.prems p Inl rel by simp
    from Cons.IH [OF this] fr show ?thesis by auto
  qed
qed

lemma process_files_frame:
  assumes "process_files e cfg study clinic fps acc w = (r, w')"
  shows "disk w' = disk w \<and> imports_total w' = imports_total w"
  using assms
proof (induction fps arbitrary: acc w)
  case Nil
  then show ?case by simp
next
  case (Cons fp fps)
  obtain s f errs where acc: "acc = (s, f, errs)" by (cases acc)
  obtain r1 w1 where p: "process_single_file e cfg fp clinic w = (r1, w1)"
    by (cases "process_single_file e cfg fp clinic w")
  note fr = process_single_file_frame [OF p]
  show ?case
  proof (cases r1)
    case (Inr u)
    let ?w = "w1\<lparr>instances_uploaded := instances_uploaded w1 @ [clinic]\<rparr>"
    have "process_files e cfg study clinic fps (s + 1, f, errs) ?w = (r, w')"
      using Cons.prems p Inr acc by simp
    from Cons.IH [OF this] fr show ?thesis by simp
  next
    case (Inl x)
    show ?thesis
    proof (cases "relative_to fp study")
      case None
      then have "w' = w1" using Cons.prems p Inl acc by simp
      with fr show ?thesis by simp
    next
      case (Some rel)
      let ?w = "log_event ''error'' ''Failed to process file'' w1"
      have "process_files e cfg study clinic fps (s, f + 1, errs @ [(path_str rel, msg x)]) ?w
          = (r, w')"
        using Cons.prems p Inl acc Some by simp
      from Cons.IH [OF this] fr show ?thesis by simp
    qed
  qed
qed

text \<open>What the classification does in each of its three branches when the move succeeds.\<close>

lemma classify_success:
  assumes "move_to_processed e cfg study clinic
             (log_event ''info'' ''Study imported successfully'' w) = (Inr (), w3)"
  shows "classify e cfg study clinic (s, 0, errs) w = (Inr True, count_import clinic ''success'' w3)"
  using assms by (simp add: classify_def)

lemma classify_partial:
  assumes "0 < s" and "0 < f"
    and "move_to_processed e cfg study clinic
             (log_event ''warning'' ''Study partially imported'' w) = (Inr (), w3)"
  shows "classify e cfg study clinic (s, f, errs) w = (Inr True, count_import clinic ''partial'' w3)"
  using assms by (simp add: classify_def)

lemma classify_failed:
  assumes "0 < f"
    and "move_to_failed e cfg study clinic (''All '' @ str_nat f @ '' files failed'') errs
             (log_event ''error'' ''Study import failed completely'' w) = (Inr (), w3)"
  shows "classify e cfg study clinic (0, f, errs) w = (Inr False, count_import clinic ''failed'' w3)"
  using assms by (simp add: classify_def)

lemma study_body_files:
  assumes "discover e study w = (Inr files, w1)" and "files \<noteq> []"
    and "process_files e cfg study clinic files (0, 0, [])
           (log_event ''info'' ''Found DICOM files'' w1) = (Inr counts, w2)"
  shows "study_body e cfg study clinic w = classify e cfg study clinic counts w2"
  using assms by (simp add: study_body_def)

lemma process_study_folder_returns:
  assumes "study_body e cfg study clinic (enter w) = (Inr b, wb)"
  shows "process_study_folder e cfg study clinic w = (Inr b, leave e clinic (clock e (tick w)) wb)"
  using assms by (simp add: process_study_folder_def Let_def)

lemma prefix_date:
  "prefix (base @ [clinic, date]) d \<Longrightarrow> prefix (base @ [clinic]) d"
  by (auto simp: prefix_def)

text \<open>
  Every way through the classification: it raises and counts nothing, or it counts one
  of the three outcomes; in the partial case the folder is moved below the processed tree
  and no file is written.
\<close>

lemma classify_cases:
  assumes "classify e cfg study clinic (s, f, errs) w = (rb, wb)"
  shows "(\<exists>x. rb = Inl x \<and> imports_total wb = imports_total w) \<or>
         (rb = Inr False \<and> imports_total wb = imports_total w @ [(clinic, ''failed'')]) \<or>
         (rb = Inr True \<and> imports_total wb = imports_total w @ [(clinic, ''success'')]) \<or>
         (rb = Inr True \<and> imports_total wb = imports_total w @ [(clinic, ''partial'')] \<and>
          0 < s \<and> 0 < f \<and>
          (\<exists>d. prefix (processed_path cfg @ [clinic]) d \<and> moved_to (disk w) (disk wb) study d) \<and>
          file_contents (disk wb) = file_contents (disk w))"
proof -
  consider (success) "f = 0" | (partial) "0 < f" "0 < s" | (failed) "0 < f" "s = 0"
    by (cases f; cases s) auto
  then show ?thesis
  proof cases
    case success
    let ?w = "log_event ''info'' ''Study imported successfully'' w"
    obtain r3 w3 where mv: "move_to_processed e cfg study clinic ?w = (r3, w3)"
      by (cases "move_to_processed e cfg study clinic ?w")
    show ?thesis
    proof (cases r3)
      case (Inl x)
      then have "rb = Inl x" "wb = w3" using assms success mv by (simp_all add: classify_def)
      then show ?thesis using move_to_processed_failed(1) [OF mv [unfolded Inl]] by simp
    next
      case (Inr u)
      then have "rb = Inr True" "wb = count_import clinic ''success'' w3"
        using assms success mv by (simp_all add: classify_def)
      then show ?thesis using move_to_processed_ok(3) [OF mv [unfolded Inr]] by simp
    qed
  next
    case partial
    let ?w = "log_event ''warning'' ''Study partially imported'' w"
    obtain r3 w3 where mv: "move_to_processed e cfg study clinic ?w = (r3, w3)"
      by (cases "move_to_processed e cfg study clinic ?w")
    show ?thesis
    proof (cases r3)
      case (Inl x)
      then have "rb = Inl x" "wb = w3" using assms partial mv by (simp_all add: classify_def)
      then show ?thesis using move_to_processed_failed(1) [OF mv [unfolded Inl]] by simp
    next
      case (Inr u)
      then have rb: "rb = Inr True" "wb = count_import clinic ''partial'' w3"
        using assms partial mv by (simp_all add: classify_def)
      obtain d where "prefix (processed_path cfg @ [clinic, date_str e (tick ?w)]) d"
        "moved_to (disk ?w) (disk w3) study d"
        using move_to_processed_moved(1) [OF mv [unfolded Inr]] by blast
      then have "prefix (processed_path cfg @ [clinic]) d \<and> moved_to (disk w) (disk wb) study d"
        using rb prefix_date by simp
      moreover have "file_contents (disk wb) = file_contents (disk w)"
        using move_to_processed_moved(2) [OF mv [unfolded Inr]] rb by simp
      moreover have "imports_total wb = imports_total w @ [(clinic, ''partial'')]"
        using move_to_processed_ok(3) [OF mv [unfolded Inr]] rb by simp
      ultimately show ?thesis using rb partial by blast
    qed
  next
    case failed
    let ?w = "log_event ''error'' ''Study import failed completely'' w"
    let ?reason = "''All '' @ str_nat f @ '' files failed''"
    obtain r3 w3 where mv: "move_to_failed e cfg study clinic ?reason errs ?w = (r3, w3)"
      by (cases "move_to_failed e cfg study clinic ?reason errs ?w")
    show ?thesis
    proof (cases r3)
      case (Inl x)
      then have "rb = Inl x" "wb = w3" using assms failed mv by (simp_all add: classify_def)
      then show ?thesis using move_to_failed_logs(2) [OF mv] by simp
    next
      case (Inr u)
      then have "rb = Inr False" "wb = count_import clinic ''failed'' w3"
        using assms failed mv by (simp_all add: classify_def)
      then show ?thesis using move_to_failed_logs(2) [OF mv] by simp
    qed
  qed
qed



text \<open>Every way through the body of the \<^verbatim>\<open>try\<close> block.\<close>

lemma study_body_cases:
  assumes "study_body e cfg study clinic w = (rb, wb)"
  shows "(\<exists>x. rb = Inl x \<and> imports_total wb = imports_total w) \<or>
         (rb = Inr False \<and> imports_total wb = imports_total w @ [(clinic, ''failed'')]) \<or>
         (rb = Inr True \<and> imports_total wb = imports_total w @ [(clinic, ''success'')]) \<or>
         (rb = Inr True \<and> imports_total wb = imports_total w @ [(clinic, ''partial'')] \<and>
          (\<exists>d. prefix (processed_path cfg @ [clinic]) d \<and> moved_to (disk w) (disk wb) study d) \<and>
          file_contents (disk wb) = file_contents (disk w) \<and>
          (\<exists>files w1 s f errs w2.
             discover e study w = (Inr files, w1) \<and>
             process_files e cfg study clinic files (0, 0, [])
               (log_event ''info'' ''Found DICOM files'' w1) = (Inr (s, f, errs), w2) \<and>
             0 < s \<and> 0 < f \<and> length errs = f))"
proof -
  obtain rd w1 where d: "discover e study w = (rd, w1)" by (cases "discover e study w")
  note fd = discover_frame [OF d]
  show ?thesis
  proof (cases rd)
    case (Inl x)
    then have "rb = Inl x" "wb = w1" using assms d by (simp_all add: study_body_def)
    then show ?thesis using fd by simp
  next
    case files: (Inr files)
    show ?thesis
    proof (cases "files = []")
      case True
      let ?wl = "log_event ''warning'' ''No DICOM files found in study folder'' w1"
      obtain r2 w2 where mv: "move_to_failed e cfg study clinic ''No DICOM files found'' [] ?wl
          = (r2, w2)"
        by (cases "move_to_failed e cfg study clinic ''No DICOM files found'' [] ?wl")
      show ?thesis
      proof (cases r2)
        case (Inl x)
        then have "rb = Inl x" "wb = w2"
          using assms d files True mv by (simp_all add: study_body_def)
        then show ?thesis using move_to_failed_logs(2) [OF mv] fd by simp
      next
        case (Inr u)
        then have "rb = Inr False" "wb = count_import clinic ''failed'' w2"
          using assms d files True mv by (simp_all add: study_body_def)
        then show ?thesis using move_to_failed_logs(2) [OF mv] fd by simp
      qed
    next
      case False
      let ?wl = "log_event ''info'' ''Found DICOM files'' w1"
      obtain rp w2 where pf: "process_files e cfg study clinic files (0, 0, []) ?wl = (rp, w2)"
        by (cases "process_files e cfg study clinic files (0, 0, []) ?wl")
      have f2: "disk w2 = disk w" "imports_total w2 = imports_total w"
        using process_files_frame [OF pf] fd by simp_all
      show ?thesis
      proof (cases rp)
        case (Inl x)
        then have "rb = Inl x" "wb = w2"
          using assms d files False pf by (simp_all add: study_body_def)
        then show ?thesis using f2 by simp
      next
        case (Inr counts)
        obtain s f errs where counts: "counts = (s, f, errs)" by (cases counts)
        have cl: "classify e cfg study clinic (s, f, errs) w2 = (rb, wb)"
          using assms d files False pf Inr counts by (simp add: study_body_def)
        have len: "length errs = f"
          using process_files_counts [OF pf [unfolded Inr counts]] by simp
        have found: "discover e study w = (Inr files, w1) \<and>
             process_files e cfg study clinic files (0, 0, []) ?wl = (Inr (s, f, errs), w2)"
          using d files pf Inr counts by simp
        from classify_cases [OF cl] show ?thesis
        proof (elim disjE)
          assume "\<exists>x. rb = Inl x \<and> imports_total wb = imports_total w2"
          then show ?thesis using f2 by simp
        next
          assume "rb = Inr False \<and> imports_total wb = imports_total w2 @ [(clinic, ''failed'')]"
          then show ?thesis using f2 by simp
        next
          assume "rb = Inr True \<and> imports_total wb = imports_total w2 @ [(clinic, ''success'')]"
          then show ?thesis using f2 by simp
        next
          assume p: "rb = Inr True \<and> imports_total wb = imports_total w2 @ [(clinic, ''partial'')] \<and>
            0 < s \<and> 0 < f \<and>
            (\<exists>d. prefix (processed_path cfg @ [clinic]) d \<and> moved_to (disk w2) (disk wb) study d) \<and>
            file_contents (disk wb) = file_contents (disk w2)"
          have "\<exists>files w1 s f errs w2.
             discover e study w = (Inr files, w1) \<and>
             process_files e cfg study clinic files (0, 0, [])
               (log_event ''info'' ''Found DICOM files'' w1) = (Inr (s, f, errs), w2) \<and>
             0 < s \<and> 0 < f \<and> length errs = f"
            using found p len by blast
          with p f2 show ?thesis by simp
        qed
      qed
    qed
  qed
qed

lemma handle_unexpected_ok:
  assumes "move_to_failed e cfg study clinic (msg x) []
             (log_event ''exception'' ''Unexpected error processing study'' w) = (Inr (), wq)"
  shows "handle_unexpected e cfg study clinic x w = (Inr False, count_import clinic ''error'' wq)"
  using assms by (simp add: handle_unexpected_def)

lemma handle_unexpected_total:
  assumes "handle_unexpected e cfg study clinic x w = (r, w')"
  shows "(\<exists>y. r = Inl y \<and> imports_total w' = imports_total w) \<or>
         (r = Inr False \<and> imports_total w' = imports_total w @ [(clinic, ''error'')])"
proof -
  let ?wl = "log_event ''exception'' ''Unexpected error processing study'' w"
  obtain rr w1 where mv: "move_to_failed e cfg study clinic (msg x) [] ?wl = (rr, w1)"
    by (cases "move_to_failed e cfg study clinic (msg x) [] ?wl")
  show ?thesis
  proof (cases rr)
    case (Inl y)
    then have "r = Inl y" "w' = w1" using assms mv by (simp_all add: handle_unexpected_def)
    then show ?thesis using move_to_failed_logs(2) [OF mv] by simp
  next
    case (Inr u)
    then have "r = Inr False" "w' = count_import clinic ''error'' w1"
      using assms mv by (simp_all add: handle_unexpected_def)
    then show ?thesis using move_to_failed_logs(2) [OF mv] by simp
  qed
qed

lemma process_study_folder_raises:
  assumes "study_body e cfg study clinic (enter w) = (Inl x, wb)"
    and "handle_unexpected e cfg study clinic x wb = (r, w2)"
  shows "process_study_folder e cfg study clinic w = (r, leave e clinic (clock e (tick w)) w2)"
  using assms by (simp add: process_study_folder_def Let_def)

text \<open>
  Claim C10. When a study is counted as \<^verbatim>\<open>partial\<close>, the function returns true, the
  folder is moved below the processed tree of the clinic, and no file is written: the
  contents of the files of the filesystem are the same list as before, although the loop
  collected at least one error next to at least one success.
\<close>

theorem partial_study_keeps_no_record:
  assumes run: "process_study_folder e cfg study clinic w = (r, w')"
    and part: "imports_total w' = imports_total w @ [(clinic, ''partial'')]"
  shows "r = Inr True \<and>
         (\<exists>dest. prefix (processed_path cfg @ [clinic]) dest \<and>
            moved_to (disk w) (disk w') study dest) \<and>
         file_contents (disk w') = file_contents (disk w) \<and>
         (\<exists>files w1 s f errs w2.
            discover e study (enter w) = (Inr files, w1) \<and>
            process_files e cfg study clinic files (0, 0, [])
              (log_event ''info'' ''Found DICOM files'' w1) = (Inr (s, f, errs), w2) \<and>
            0 < s \<and> 0 < f \<and> length errs = f)"
proof -
  obtain rb wb where sb: "study_body e cfg study clinic (enter w) = (rb, wb)"
    by (cases "study_body e cfg study clinic (enter w)")
  show ?thesis
  proof (cases rb)
    case (Inl x)
    obtain r2 w2 where h: "handle_unexpected e cfg study clinic x wb = (r2, w2)"
      by (cases "handle_unexpected e cfg study clinic x wb")
    have w': "w' = leave e clinic (clock e (tick w)) w2"
      using run process_study_folder_raises [OF sb [unfolded Inl] h] by simp
    have "imports_total wb = imports_total w"
      using study_body_cases [OF sb] Inl by auto
    then have "imports_total w' = imports_total w \<or>
        imports_total w' = imports_total w @ [(clinic, ''error'')]"
      using handle_unexpected_total [OF h] w' by auto
    with part show ?thesis by simp
  next
    case (Inr b)
    have w': "r = Inr b" "w' = leave e clinic (clock e (tick w)) wb"
      using run process_study_folder_returns [OF sb [unfolded Inr]] by simp_all
    from study_body_cases [OF sb] show ?thesis
    proof (elim disjE)
      assume "\<exists>x. rb = Inl x \<and> imports_total wb = imports_total (enter w)"
      with Inr show ?thesis by simp
    next
      assume "rb = Inr False \<and> imports_total wb = imports_total (enter w) @ [(clinic, ''failed'')]"
      with part w' show ?thesis by simp
    next
      assume "rb = Inr True \<and> imports_total wb = imports_total (enter w) @ [(clinic, ''success'')]"
      with part w' show ?thesis by simp
    next
      assume p: "rb = Inr True \<and>
        imports_total wb = imports_total (enter w) @ [(clinic, ''partial'')] \<and>
        (\<exists>d. prefix (processed_path cfg @ [clinic]) d \<and>
           moved_to (disk (enter w)) (disk wb) study d) \<and>
        file_contents (disk wb) = file_contents (disk (enter w)) \<and>
        (\<exists>files w1 s f errs w2.
           discover e study (enter w) = (Inr files, w1) \<and>
           process_files e cfg study clinic files (0, 0, [])
             (log_event ''info'' ''Found DICOM files'' w1) = (Inr (s, f, errs), w2) \<and>
           0 < s \<and> 0 < f \<and> length errs = f)"
      then have "r = Inr True" using w' Inr by simp
      with p w' show ?thesis by simp
    qed
  qed
qed

text \<open>
  The study with three files of which the second is no DICOM file: two instances are
  uploaded, one fails, and the filesystem afterwards holds the three files below
  \<^verbatim>\<open>processed/clinicA/2026-11-04/study1\<close> and no error record.
\<close>

theorem partial_study_keeps_no_record_witness:
  "imports_total (snd (process_study_folder env0 cfg0 study1 ''clinicA'' (world_of fs_three)))
     = imports_total (world_of fs_three) @ [(''clinicA'', ''partial'')] \<and>
   fst (process_study_folder env0 cfg0 study1 ''clinicA'' (world_of fs_three)) = Inr True \<and>
   instances_uploaded (snd (process_study_folder env0 cfg0 study1 ''clinicA'' (world_of fs_three)))
     = [''clinicA'', ''clinicA''] \<and>
   disk (snd (process_study_folder env0 cfg0 study1 ''clinicA'' (world_of fs_three))) =
     [([''inbox''], Dir), ([''processed''], Dir), ([''failed''], Dir),
      ([''processed'', ''clinicA'', ''2026-11-04'', ''study1'', ''a.dcm''], File (Bytes ''DICMalice'')),
      ([''processed'', ''clinicA'', ''2026-11-04'', ''study1'', ''series2'', ''b.dcm''],
       File (Bytes ''junk'')),
      ([''processed'', ''clinicA'', ''2026-11-04'', ''study1'', ''c.DCM''], File (Bytes ''DICMcarol'')),
      ([''processed'', ''clinicA'', ''2026-11-04''], Dir)] \<and>
   file_contents (disk (snd (process_study_folder env0 cfg0 study1 ''clinicA'' (world_of fs_three))))
     = [Bytes ''DICMalice'', Bytes ''junk'', Bytes ''DICMcarol'']"
proof -
  let ?run = "process_study_folder env0 cfg0 study1 ''clinicA'' (world_of fs_three)"
  have p: "imports_total (snd ?run) = imports_total (world_of fs_three) @ [(''clinicA'', ''partial'')]"
    by code_simp
  have u: "instances_uploaded (snd ?run) = [''clinicA'', ''clinicA'']"
    by code_simp
  have dk: "disk (snd ?run) =
     [([''inbox''], Dir), ([''processed''], Dir), ([''failed''], Dir),
      ([''processed'', ''clinicA'', ''2026-11-04'', ''study1'', ''a.dcm''], File (Bytes ''DICMalice'')),
      ([''processed'', ''clinicA'', ''2026-11-04'', ''study1'', ''series2'', ''b.dcm''],
       File (Bytes ''junk'')),
      ([''processed'', ''clinicA'', ''2026-11-04'', ''study1'', ''c.DCM''], File (Bytes ''DICMcarol'')),
      ([''processed'', ''clinicA'', ''2026-11-04''], Dir)]"
    by code_simp
  have fc: "file_contents (disk (world_of fs_three))
      = [Bytes ''DICMalice'', Bytes ''junk'', Bytes ''DICMcarol'']"
    by code_simp
  from partial_study_keeps_no_record [OF prod.collapse [symmetric] p]
  have "fst ?run = Inr True" "file_contents (disk (snd ?run)) = file_contents (disk (world_of fs_three))"
    by simp_all
  with p u dk fc show ?thesis by simp
qed


lemma outcome_classified:
  assumes run: "process_study_folder e cfg study clinic w = (r, w')"
    and d: "discover e study (enter w) = (Inr files, w1)" and ne: "files \<noteq> []"
    and pf: "process_files e cfg study clinic files (0, 0, [])
               (log_event ''info'' ''Found DICOM files'' w1) = (Inr (s, f, errs), w2)"
    and cl: "classify e cfg study clinic (s, f, errs) w2 = (Inr b, wb)"
  shows "r = Inr b" and "w' = leave e clinic (clock e (tick w)) wb"
    and "disk w2 = disk w" and "imports_total w2 = imports_total w"
    and "instances_uploaded w2 = instances_uploaded w @ replicate s clinic"
    and "s + f = length files" and "length errs = f"
proof -
  have "study_body e cfg study clinic (enter w) = (Inr b, wb)"
    using study_body_files [OF d ne pf] cl by simp
  then have "process_study_folder e cfg study clinic w
      = (Inr b, leave e clinic (clock e (tick w)) wb)"
    by (rule process_study_folder_returns)
  with run show "r = Inr b" and "w' = leave e clinic (clock e (tick w)) wb" by simp_all
  note c = process_files_counts [OF pf]
  note fd = discover_frame [OF d]
  show "disk w2 = disk w" using c fd by simp
  show "imports_total w2 = imports_total w" using c fd by simp
  show "instances_uploaded w2 = instances_uploaded w @ replicate s clinic" using c fd by simp
  show "s + f = length files" using c by simp
  show "length errs = f" using c by simp
qed

lemma outcome_processed:
  assumes run: "process_study_folder e cfg study clinic w = (r, w')"
    and d: "discover e study (enter w) = (Inr files, w1)" and ne: "files \<noteq> []"
    and pf: "process_files e cfg study clinic files (0, 0, [])
               (log_event ''info'' ''Found DICOM files'' w1) = (Inr (s, f, errs), w2)"
    and mv: "move_to_processed e cfg study clinic (log_event level ev w2) = (Inr (), w3)"
    and cl: "classify e cfg study clinic (s, f, errs) w2 = (Inr True, count_import clinic status w3)"
  shows "r = Inr True \<and>
         imports_total w' = imports_total w @ [(clinic, status)] \<and>
         instances_uploaded w' = instances_uploaded w @ replicate s clinic \<and>
         (\<exists>dest. prefix (processed_path cfg @ [clinic]) dest \<and>
            moved_to (disk w) (disk w') study dest)"
proof -
  note o = outcome_classified [OF run d ne pf cl]
  obtain dest where dest: "prefix (processed_path cfg @ [clinic, date_str e (tick (log_event level ev w2))]) dest"
    "moved_to (disk (log_event level ev w2)) (disk w3) study dest"
    using move_to_processed_moved(1) [OF mv] by blast
  have m: "prefix (processed_path cfg @ [clinic]) dest \<and> moved_to (disk w) (disk w') study dest"
    using dest(2) prefix_date [OF dest(1)] o by simp
  have "imports_total w' = imports_total w @ [(clinic, status)]"
    using move_to_processed_ok(3) [OF mv] o by simp
  moreover have "instances_uploaded w' = instances_uploaded w @ replicate s clinic"
    using move_to_processed_ok(5) [OF mv] o by simp
  moreover have "\<exists>dest. prefix (processed_path cfg @ [clinic]) dest \<and>
      moved_to (disk w) (disk w') study dest"
    by (rule exI [of _ dest]) (rule m)
  ultimately show ?thesis using o(1) by simp
qed

lemma outcome_failed:
  assumes run: "process_study_folder e cfg study clinic w = (r, w')"
    and d: "discover e study (enter w) = (Inr files, w1)" and ne: "files \<noteq> []"
    and pf: "process_files e cfg study clinic files (0, 0, [])
               (log_event ''info'' ''Found DICOM files'' w1) = (Inr (0, f, errs), w2)"
    and f: "0 < f"
    and mv: "move_to_failed e cfg study clinic (''All '' @ str_nat f @ '' files failed'') errs
               (log_event ''error'' ''Study import failed completely'' w2) = (Inr (), w3)"
  shows "r = Inr False \<and>
         imports_total w' = imports_total w @ [(clinic, ''failed'')] \<and>
         instances_uploaded w' = instances_uploaded w \<and>
         (\<exists>dest. prefix (failed_path cfg @ [clinic]) dest \<and>
            moved_to (disk w) (disk w') study dest) \<and>
         (\<exists>dir. prefix (failed_path cfg @ [clinic]) dir \<and>
            has_error_record (disk w') dir clinic (''All '' @ str_nat f @ '' files failed'') errs)"
proof -
  let ?wl = "log_event ''error'' ''Study import failed completely'' w2"
  let ?dd = "failed_path cfg @ [clinic, date_str e (tick ?wl)]"
  note o = outcome_classified [OF run d ne pf classify_failed [OF f mv]]
  obtain dest where dest: "prefix ?dd dest" "moved_to (disk ?wl) (disk w3) study dest"
    using move_to_failed_quarantined(1) [OF mv] by blast
  have m: "prefix (failed_path cfg @ [clinic]) dest \<and> moved_to (disk w) (disk w') study dest"
    using dest(2) prefix_date [OF dest(1)] o by simp
  have rec: "prefix (failed_path cfg @ [clinic]) ?dd \<and>
      has_error_record (disk w') ?dd clinic (''All '' @ str_nat f @ '' files failed'') errs"
    using move_to_failed_quarantined(2) [OF mv] o by (simp add: prefix_def)
  have "imports_total w' = imports_total w @ [(clinic, ''failed'')]"
    using move_to_failed_ok(3) [OF mv] o by simp
  moreover have "instances_uploaded w' = instances_uploaded w"
    using move_to_failed_ok(5) [OF mv] o by simp
  moreover have "\<exists>dest. prefix (failed_path cfg @ [clinic]) dest \<and>
      moved_to (disk w) (disk w') study dest"
    by (rule exI [of _ dest]) (rule m)
  moreover have "\<exists>dir. prefix (failed_path cfg @ [clinic]) dir \<and>
      has_error_record (disk w') dir clinic (''All '' @ str_nat f @ '' files failed'') errs"
    by (rule exI [of _ ?dd]) (rule rec)
  ultimately show ?thesis using o(1) by simp
qed

lemma outcome_error:
  assumes run: "process_study_folder e cfg study clinic w = (r, w')"
    and sb: "study_body e cfg study clinic (enter w) = (Inl x, wb)"
    and mv: "move_to_failed e cfg study clinic (msg x) []
               (log_event ''exception'' ''Unexpected error processing study'' wb) = (Inr (), wq)"
  shows "r = Inr False \<and>
         imports_total w' = imports_total w @ [(clinic, ''error'')] \<and>
         (\<exists>dest. prefix (failed_path cfg @ [clinic]) dest \<and>
            moved_to (disk wb) (disk w') study dest) \<and>
         (\<exists>dir. prefix (failed_path cfg @ [clinic]) dir \<and>
            has_error_record (disk w') dir clinic (msg x) [])"
proof -
  let ?wl = "log_event ''exception'' ''Unexpected error processing study'' wb"
  let ?dd = "failed_path cfg @ [clinic, date_str e (tick ?wl)]"
  have "process_study_folder e cfg study clinic w
      = (Inr False, leave e clinic (clock e (tick w)) (count_import clinic ''error'' wq))"
    by (rule process_study_folder_raises [OF sb handle_unexpected_ok [OF mv]])
  with run have r: "r = Inr False"
    and w': "w' = leave e clinic (clock e (tick w)) (count_import clinic ''error'' wq)"
    by simp_all
  have ib: "imports_total wb = imports_total w"
    using study_body_cases [OF sb] by auto
  obtain dest where dest: "prefix ?dd dest" "moved_to (disk ?wl) (disk wq) study dest"
    using move_to_failed_quarantined(1) [OF mv] by blast
  have m: "prefix (failed_path cfg @ [clinic]) dest \<and> moved_to (disk wb) (disk w') study dest"
    using dest(2) prefix_date [OF dest(1)] w' by simp
  have rec: "prefix (failed_path cfg @ [clinic]) ?dd \<and>
      has_error_record (disk w') ?dd clinic (msg x) []"
    using move_to_failed_quarantined(2) [OF mv] w' by (simp add: prefix_def)
  have "imports_total w' = imports_total w @ [(clinic, ''error'')]"
    using move_to_failed_ok(3) [OF mv] ib w' by simp
  moreover have "\<exists>dest. prefix (failed_path cfg @ [clinic]) dest \<and>
      moved_to (disk wb) (disk w') study dest"
    by (rule exI [of _ dest]) (rule m)
  moreover have "\<exists>dir. prefix (failed_path cfg @ [clinic]) dir \<and>
      has_error_record (disk w') dir clinic (msg x) []"
    by (rule exI [of _ ?dd]) (rule rec)
  ultimately show ?thesis using r by simp
qed

text \<open>
  Claim C1. Let the discovery find the files \<open>files\<close>, not none, and let the loop end with
  \<open>s\<close> successes, \<open>f\<close> failures and the error list \<open>errs\<close>; then \<open>s + f\<close> is the number
  of files and \<open>errs\<close> has \<open>f\<close> entries. If \<open>f = 0\<close> (so \<open>s > 0\<close>) and the move does not raise,
  the study is counted \<^verbatim>\<open>success\<close>, the function returns true and the folder is below the
  processed tree of the clinic, with \<open>s\<close> instances counted as uploaded. If \<open>s > 0\<close> and
  \<open>f > 0\<close>, the same holds with the count \<^verbatim>\<open>partial\<close>. If \<open>s = 0\<close> and \<open>f > 0\<close> and the
  quarantine does not raise, the study is counted \<^verbatim>\<open>failed\<close>, the function returns false,
  and the folder is below the failed tree next to an error record that gives the reason
  \<^verbatim>\<open>All f files failed\<close> and the errors \<open>errs\<close>. If an exception \<open>x\<close> leaves the body of
  the \<^verbatim>\<open>try\<close> block and the quarantine of the handler does not raise, the study is counted
  \<^verbatim>\<open>error\<close>, the function returns false, and the folder is below the failed tree with an
  error record whose reason is the message of \<open>x\<close>.
\<close>

theorem study_outcome:
  assumes run: "process_study_folder e cfg study clinic w = (r, w')"
  shows "(\<forall>files w1 s f errs w2.
            discover e study (enter w) = (Inr files, w1) \<and> files \<noteq> [] \<and>
            process_files e cfg study clinic files (0, 0, [])
              (log_event ''info'' ''Found DICOM files'' w1) = (Inr (s, f, errs), w2) \<longrightarrow>
            s + f = length files \<and> length errs = f \<and>
            (f = 0 \<longrightarrow>
               (\<forall>w3. move_to_processed e cfg study clinic
                        (log_event ''info'' ''Study imported successfully'' w2) = (Inr (), w3) \<longrightarrow>
                  0 < s \<and> r = Inr True \<and>
                  imports_total w' = imports_total w @ [(clinic, ''success'')] \<and>
                  instances_uploaded w' = instances_uploaded w @ replicate s clinic \<and>
                  (\<exists>dest. prefix (processed_path cfg @ [clinic]) dest \<and>
                     moved_to (disk w) (disk w') study dest))) \<and>
            (0 < s \<and> 0 < f \<longrightarrow>
               (\<forall>w3. move_to_processed e cfg study clinic
                        (log_event ''warning'' ''Study partially imported'' w2) = (Inr (), w3) \<longrightarrow>
                  r = Inr True \<and>
                  imports_total w' = imports_total w @ [(clinic, ''partial'')] \<and>
                  instances_uploaded w' = instances_uploaded w @ replicate s clinic \<and>
                  (\<exists>dest. prefix (processed_path cfg @ [clinic]) dest \<and>
                     moved_to (disk w) (disk w') study dest))) \<and>
            (s = 0 \<and> 0 < f \<longrightarrow>
               (\<forall>w3. move_to_failed e cfg study clinic
                        (''All '' @ str_nat f @ '' files failed'') errs
                        (log_event ''error'' ''Study import failed completely'' w2) = (Inr (), w3) \<longrightarrow>
                  r = Inr False \<and>
                  imports_total w' = imports_total w @ [(clinic, ''failed'')] \<and>
                  instances_uploaded w' = instances_uploaded w \<and>
                  (\<exists>dest. prefix (failed_path cfg @ [clinic]) dest \<and>
                     moved_to (disk w) (disk w') study dest) \<and>
                  (\<exists>dir. prefix (failed_path cfg @ [clinic]) dir \<and>
                     has_error_record (disk w') dir clinic
                       (''All '' @ str_nat f @ '' files failed'') errs)))) \<and>
         (\<forall>x wb wq.
            study_body e cfg study clinic (enter w) = (Inl x, wb) \<and>
            move_to_failed e cfg study clinic (msg x) []
              (log_event ''exception'' ''Unexpected error processing study'' wb) = (Inr (), wq) \<longrightarrow>
            r = Inr False \<and>
            imports_total w' = imports_total w @ [(clinic, ''error'')] \<and>
            (\<exists>dest. prefix (failed_path cfg @ [clinic]) dest \<and>
               moved_to (disk wb) (disk w') study dest) \<and>
            (\<exists>dir. prefix (failed_path cfg @ [clinic]) dir \<and>
               has_error_record (disk w') dir clinic (msg x) []))"
proof (rule conjI)
  show "\<forall>x wb wq.
            study_body e cfg study clinic (enter w) = (Inl x, wb) \<and>
            move_to_failed e cfg study clinic (msg x) []
              (log_event ''exception'' ''Unexpected error processing study'' wb) = (Inr (), wq) \<longrightarrow>
            r = Inr False \<and>
            imports_total w' = imports_total w @ [(clinic, ''error'')] \<and>
            (\<exists>dest. prefix (failed_path cfg @ [clinic]) dest \<and>
               moved_to (disk wb) (disk w') study dest) \<and>
            (\<exists>dir. prefix (failed_path cfg @ [clinic]) dir \<and>
               has_error_record (disk w') dir clinic (msg x) [])"
  proof (intro allI impI)
    fix x wb wq
    assume "study_body e cfg study clinic (enter w) = (Inl x, wb) \<and>
            move_to_failed e cfg study clinic (msg x) []
              (log_event ''exception'' ''Unexpected error processing study'' wb) = (Inr (), wq)"
    then have sb: "study_body e cfg study clinic (enter w) = (Inl x, wb)"
      and mv: "move_to_failed e cfg study clinic (msg x) []
              (log_event ''exception'' ''Unexpected error processing study'' wb) = (Inr (), wq)"
      by simp_all
    show "r = Inr False \<and>
            imports_total w' = imports_total w @ [(clinic, ''error'')] \<and>
            (\<exists>dest. prefix (failed_path cfg @ [clinic]) dest \<and>
               moved_to (disk wb) (disk w') study dest) \<and>
            (\<exists>dir. prefix (failed_path cfg @ [clinic]) dir \<and>
               has_error_record (disk w') dir clinic (msg x) [])"
      by (rule outcome_error [OF run sb mv])
  qed
next
  show "\<forall>files w1 s f errs w2.
            discover e study (enter w) = (Inr files, w1) \<and> files \<noteq> [] \<and>
            process_files e cfg study clinic files (0, 0, [])
              (log_event ''info'' ''Found DICOM files'' w1) = (Inr (s, f, errs), w2) \<longrightarrow>
            s + f = length files \<and> length errs = f \<and>
            (f = 0 \<longrightarrow>
               (\<forall>w3. move_to_processed e cfg study clinic
                        (log_event ''info'' ''Study imported successfully'' w2) = (Inr (), w3) \<longrightarrow>
                  0 < s \<and> r = Inr True \<and>
                  imports_total w' = imports_total w @ [(clinic, ''success'')] \<and>
                  instances_uploaded w' = instances_uploaded w @ replicate s clinic \<and>
                  (\<exists>dest. prefix (processed_path cfg @ [clinic]) dest \<and>
                     moved_to (disk w) (disk w') study dest))) \<and>
            (0 < s \<and> 0 < f \<longrightarrow>
               (\<forall>w3. move_to_processed e cfg study clinic
                        (log_event ''warning'' ''Study partially imported'' w2) = (Inr (), w3) \<longrightarrow>
                  r = Inr True \<and>
                  imports_total w' = imports_total w @ [(clinic, ''partial'')] \<and>
                  instances_uploaded w' = instances_uploaded w @ replicate s clinic \<and>
                  (\<exists>dest. prefix (processed_path cfg @ [clinic]) dest \<and>
                     moved_to (disk w) (disk w') study dest))) \<and>
            (s = 0 \<and> 0 < f \<longrightarrow>
               (\<forall>w3. move_to_failed e cfg study clinic
                        (''All '' @ str_nat f @ '' files failed'') errs
                        (log_event ''error'' ''Study import failed completely'' w2) = (Inr (), w3) \<longrightarrow>
                  r = Inr False \<and>
                  imports_total w' = imports_total w @ [(clinic, ''failed'')] \<and>
                  instances_uploaded w' = instances_uploaded w \<and>
                  (\<exists>dest. prefix (failed_path cfg @ [clinic]) dest \<and>
                     moved_to (disk w) (disk w') study dest) \<and>
                  (\<exists>dir. prefix (failed_path cfg @ [clinic]) dir \<and>
                     has_error_record (disk w') dir clinic
                       (''All '' @ str_nat f @ '' files failed'') errs)))"
  proof (intro allI impI)
    fix files w1 s f errs w2
    assume "discover e study (enter w) = (Inr files, w1) \<and> files \<noteq> [] \<and>
            process_files e cfg study clinic files (0, 0, [])
              (log_event ''info'' ''Found DICOM files'' w1) = (Inr (s, f, errs), w2)"
    then have d: "discover e study (enter w) = (Inr files, w1)" and ne: "files \<noteq> []"
      and pf: "process_files e cfg study clinic files (0, 0, [])
              (log_event ''info'' ''Found DICOM files'' w1) = (Inr (s, f, errs), w2)"
      by simp_all
    have c: "s + f = length files" "length errs = f"
      using process_files_counts [OF pf] by simp_all
    have pos: "0 < s" if "f = 0" using c(1) ne that by simp
    have success: "0 < s \<and> r = Inr True \<and>
                  imports_total w' = imports_total w @ [(clinic, ''success'')] \<and>
                  instances_uploaded w' = instances_uploaded w @ replicate s clinic \<and>
                  (\<exists>dest. prefix (processed_path cfg @ [clinic]) dest \<and>
                     moved_to (disk w) (disk w') study dest)"
      if f0: "f = 0" and mv: "move_to_processed e cfg study clinic
                        (log_event ''info'' ''Study imported successfully'' w2) = (Inr (), w3)"
      for w3
      using outcome_processed [OF run d ne pf mv] classify_success [OF mv, of s errs] f0 pos
      by simp
    have partial: "r = Inr True \<and>
                  imports_total w' = imports_total w @ [(clinic, ''partial'')] \<and>
                  instances_uploaded w' = instances_uploaded w @ replicate s clinic \<and>
                  (\<exists>dest. prefix (processed_path cfg @ [clinic]) dest \<and>
                     moved_to (disk w) (disk w') study dest)"
      if sf: "0 < s \<and> 0 < f" and mv: "move_to_processed e cfg study clinic
                        (log_event ''warning'' ''Study partially imported'' w2) = (Inr (), w3)"
      for w3
    proof -
      have "classify e cfg study clinic (s, f, errs) w2
          = (Inr True, count_import clinic ''partial'' w3)"
        using sf mv by (intro classify_partial) simp_all
      then show ?thesis by (rule outcome_processed [OF run d ne pf mv])
    qed
    have failed: "r = Inr False \<and>
                  imports_total w' = imports_total w @ [(clinic, ''failed'')] \<and>
                  instances_uploaded w' = instances_uploaded w \<and>
                  (\<exists>dest. prefix (failed_path cfg @ [clinic]) dest \<and>
                     moved_to (disk w) (disk w') study dest) \<and>
                  (\<exists>dir. prefix (failed_path cfg @ [clinic]) dir \<and>
                     has_error_record (disk w') dir clinic
                       (''All '' @ str_nat f @ '' files failed'') errs)"
      if sf: "s = 0 \<and> 0 < f" and mv: "move_to_failed e cfg study clinic
                        (''All '' @ str_nat f @ '' files failed'') errs
                        (log_event ''error'' ''Study import failed completely'' w2) = (Inr (), w3)"
      for w3
    proof -
      have pf0: "process_files e cfg study clinic files (0, 0, [])
              (log_event ''info'' ''Found DICOM files'' w1) = (Inr (0, f, errs), w2)"
        using pf sf by simp
      from sf have "0 < f" by simp
      then show ?thesis by (rule outcome_failed [OF run d ne pf0 _ mv])
    qed
    show "s + f = length files \<and> length errs = f \<and>
            (f = 0 \<longrightarrow>
               (\<forall>w3. move_to_processed e cfg study clinic
                        (log_event ''info'' ''Study imported successfully'' w2) = (Inr (), w3) \<longrightarrow>
                  0 < s \<and> r = Inr True \<and>
                  imports_total w' = imports_total w @ [(clinic, ''success'')] \<and>
                  instances_uploaded w' = instances_uploaded w @ replicate s clinic \<and>
                  (\<exists>dest. prefix (processed_path cfg @ [clinic]) dest \<and>
                     moved_to (disk w) (disk w') study dest))) \<and>
            (0 < s \<and> 0 < f \<longrightarrow>
               (\<forall>w3. move_to_processed e cfg study clinic
                        (log_event ''warning'' ''Study partially imported'' w2) = (Inr (), w3) \<longrightarrow>
                  r = Inr True \<and>
                  imports_total w' = imports_total w @ [(clinic, ''partial'')] \<and>
                  instances_uploaded w' = instances_uploaded w @ replicate s clinic \<and>
                  (\<exists>dest. prefix (processed_path cfg @ [clinic]) dest \<and>
                     moved_to (disk w) (disk w') study dest))) \<and>
            (s = 0 \<and> 0 < f \<longrightarrow>
               (\<forall>w3. move_to_failed e cfg study clinic
                        (''All '' @ str_nat f @ '' files failed'') errs
                        (log_event ''error'' ''Study import failed completely'' w2) = (Inr (), w3) \<longrightarrow>
                  r = Inr False \<and>
                  imports_total w' = imports_total w @ [(clinic, ''failed'')] \<and>
                  instances_uploaded w' = instances_uploaded w \<and>
                  (\<exists>dest. prefix (failed_path cfg @ [clinic]) dest \<and>
                     moved_to (disk w) (disk w') study dest) \<and>
                  (\<exists>dir. prefix (failed_path cfg @ [clinic]) dir \<and>
                     has_error_record (disk w') dir clinic
                       (''All '' @ str_nat f @ '' files failed'') errs)))"
    proof (intro conjI)
      show "s + f = length files" by (rule c(1))
      show "length errs = f" by (rule c(2))
      show "f = 0 \<longrightarrow>
               (\<forall>w3. move_to_processed e cfg study clinic
                        (log_event ''info'' ''Study imported successfully'' w2) = (Inr (), w3) \<longrightarrow>
                  0 < s \<and> r = Inr True \<and>
                  imports_total w' = imports_total w @ [(clinic, ''success'')] \<and>
                  instances_uploaded w' = instances_uploaded w @ replicate s clinic \<and>
                  (\<exists>dest. prefix (processed_path cfg @ [clinic]) dest \<and>
                     moved_to (disk w) (disk w') study dest))"
        by (intro impI allI) (rule success)
      show "0 < s \<and> 0 < f \<longrightarrow>
               (\<forall>w3. move_to_processed e cfg study clinic
                        (log_event ''warning'' ''Study partially imported'' w2) = (Inr (), w3) \<longrightarrow>
                  r = Inr True \<and>
                  imports_total w' = imports_total w @ [(clinic, ''partial'')] \<and>
                  instances_uploaded w' = instances_uploaded w @ replicate s clinic \<and>
                  (\<exists>dest. prefix (processed_path cfg @ [clinic]) dest \<and>
                     moved_to (disk w) (disk w') study dest))"
        by (intro impI allI) (rule partial)
      show "s = 0 \<and> 0 < f \<longrightarrow>
               (\<forall>w3. move_to_failed e cfg study clinic
                        (''All '' @ str_nat f @ '' files failed'') errs
                        (log_event ''error'' ''Study import failed completely'' w2) = (Inr (), w3) \<longrightarrow>
                  r = Inr False \<and>
                  imports_total w' = imports_total w @ [(clinic, ''failed'')] \<and>
                  instances_uploaded w' = instances_uploaded w \<and>
                  (\<exists>dest. prefix (failed_path cfg @ [clinic]) dest \<and>
                     moved_to (disk w) (disk w') study dest) \<and>
                  (\<exists>dir. prefix (failed_path cfg @ [clinic]) dir \<and>
                     has_error_record (disk w') dir clinic
                       (''All '' @ str_nat f @ '' files failed'') errs))"
        by (intro impI allI) (rule failed)
    qed
  qed
qed

text \<open>
  Four runs in the sample environment: two valid files (success); three files of which one
  is no DICOM file (partial); one file that is no DICOM file (failed, with the error record);
  and the two valid files when the move to the processed tree is refused (error, with the
  message of the exception as the reason).
\<close>

theorem study_outcome_witness:
  "fst (process_study_folder env0 cfg0 study1 ''clinicA'' (world_of fs_two)) = Inr True \<and>
   imports_total (snd (process_study_folder env0 cfg0 study1 ''clinicA'' (world_of fs_two)))
     = [(''clinicA'', ''success'')] \<and>
   instances_uploaded (snd (process_study_folder env0 cfg0 study1 ''clinicA'' (world_of fs_two)))
     = [''clinicA'', ''clinicA''] \<and>
   fst (process_study_folder env0 cfg0 study1 ''clinicA'' (world_of fs_three)) = Inr True \<and>
   imports_total (snd (process_study_folder env0 cfg0 study1 ''clinicA'' (world_of fs_three)))
     = [(''clinicA'', ''partial'')] \<and>
   fst (process_study_folder env0 cfg0 study1 ''clinicA'' (world_of fs_junk)) = Inr False \<and>
   imports_total (snd (process_study_folder env0 cfg0 study1 ''clinicA'' (world_of fs_junk)))
     = [(''clinicA'', ''failed'')] \<and>
   has_error_record (disk (snd (process_study_folder env0 cfg0 study1 ''clinicA'' (world_of fs_junk))))
     [''failed'', ''clinicA'', ''2026-11-04''] ''clinicA'' ''All 1 files failed''
     [(''series2/b.dcm'', ''Invalid DICOM file: no DICM prefix'')] \<and>
   fst (process_study_folder (env_at 19) cfg0 study1 ''clinicA'' (world_of fs_two)) = Inr False \<and>
   imports_total (snd (process_study_folder (env_at 19) cfg0 study1 ''clinicA'' (world_of fs_two)))
     = [(''clinicA'', ''error'')] \<and>
   has_error_record
     (disk (snd (process_study_folder (env_at 19) cfg0 study1 ''clinicA'' (world_of fs_two))))
     [''failed'', ''clinicA'', ''2026-11-04''] ''clinicA'' ''denied'' []"
proof -
  let ?a = "[''inbox'', ''clinicA'', ''study1'', ''a.dcm'']"
  let ?b = "[''inbox'', ''clinicA'', ''study1'', ''series2'', ''b.dcm'']"
  let ?c = "[''inbox'', ''clinicA'', ''study1'', ''c.DCM'']"
  have e2: "imports_total (world_of fs_two) = []" "instances_uploaded (world_of fs_two) = []"
    and e3: "imports_total (world_of fs_three) = []"
    and ej: "imports_total (world_of fs_junk) = []"
    by (simp_all add: world_of_def)
  \<comment> \<open>success\<close>
  let ?d2 = "discover env0 study1 (enter (world_of fs_two))"
  let ?p2 = "process_files env0 cfg0 study1 ''clinicA'' [?a, ?c] (0, 0, [])
               (log_event ''info'' ''Found DICOM files'' (snd ?d2))"
  let ?m2 = "move_to_processed env0 cfg0 study1 ''clinicA''
               (log_event ''info'' ''Study imported successfully'' (snd ?p2))"
  have d2: "?d2 = (Inr [?a, ?c], snd ?d2)" by code_simp
  have p2: "?p2 = (Inr (2, 0, []), snd ?p2)" by code_simp
  have m2: "?m2 = (Inr (), snd ?m2)" by code_simp
  have ne2: "[?a, ?c] \<noteq> []" by simp
  note A2 = study_outcome [OF prod.collapse [symmetric], THEN conjunct1, rule_format,
      OF conjI [OF d2 conjI [OF ne2 p2]]]
  note S2 = A2 [THEN conjunct2, THEN conjunct2, THEN conjunct1, rule_format, OF refl m2]
  \<comment> \<open>partial\<close>
  let ?d3 = "discover env0 study1 (enter (world_of fs_three))"
  let ?p3 = "process_files env0 cfg0 study1 ''clinicA'' [?a, ?b, ?c] (0, 0, [])
               (log_event ''info'' ''Found DICOM files'' (snd ?d3))"
  let ?m3 = "move_to_processed env0 cfg0 study1 ''clinicA''
               (log_event ''warning'' ''Study partially imported'' (snd ?p3))"
  have d3: "?d3 = (Inr [?a, ?b, ?c], snd ?d3)" by code_simp
  have p3: "?p3 = (Inr (2, 1, [(''series2/b.dcm'', ''Invalid DICOM file: no DICM prefix'')]), snd ?p3)"
    by code_simp
  have m3: "?m3 = (Inr (), snd ?m3)" by code_simp
  have ne3: "[?a, ?b, ?c] \<noteq> []" by simp
  have pos3: "(0::nat) < 2 \<and> (0::nat) < 1" by simp
  note A3 = study_outcome [OF prod.collapse [symmetric], THEN conjunct1, rule_format,
      OF conjI [OF d3 conjI [OF ne3 p3]]]
  note S3 = A3 [THEN conjunct2, THEN conjunct2, THEN conjunct2, THEN conjunct1, rule_format,
      OF pos3 m3]
  \<comment> \<open>failed\<close>
  let ?dj = "discover env0 study1 (enter (world_of fs_junk))"
  let ?pj = "process_files env0 cfg0 study1 ''clinicA'' [?b] (0, 0, [])
               (log_event ''info'' ''Found DICOM files'' (snd ?dj))"
  let ?mj = "move_to_failed env0 cfg0 study1 ''clinicA'' (''All '' @ str_nat 1 @ '' files failed'')
               [(''series2/b.dcm'', ''Invalid DICOM file: no DICM prefix'')]
               (log_event ''error'' ''Study import failed completely'' (snd ?pj))"
  have dj: "?dj = (Inr [?b], snd ?dj)" by code_simp
  have pj: "?pj = (Inr (0, 1, [(''series2/b.dcm'', ''Invalid DICOM file: no DICM prefix'')]), snd ?pj)"
    by code_simp
  have mj: "?mj = (Inr (), snd ?mj)" by code_simp
  have nej: "[?b] \<noteq> []" by simp
  have posj: "(0::nat) = 0 \<and> (0::nat) < 1" by simp
  note Aj = study_outcome [OF prod.collapse [symmetric], THEN conjunct1, rule_format,
      OF conjI [OF dj conjI [OF nej pj]]]
  note Sj = Aj [THEN conjunct2, THEN conjunct2, THEN conjunct2, THEN conjunct2, rule_format,
      OF posj mj]
  have rj: "has_error_record
     (disk (snd (process_study_folder env0 cfg0 study1 ''clinicA'' (world_of fs_junk))))
     [''failed'', ''clinicA'', ''2026-11-04''] ''clinicA'' ''All 1 files failed''
     [(''series2/b.dcm'', ''Invalid DICOM file: no DICM prefix'')]"
    by code_simp
  \<comment> \<open>error\<close>
  let ?sb = "study_body (env_at 19) cfg0 study1 ''clinicA'' (enter (world_of fs_two))"
  let ?x = "Exn ''PermissionError'' ''denied''"
  let ?mq = "move_to_failed (env_at 19) cfg0 study1 ''clinicA'' (msg ?x) []
               (log_event ''exception'' ''Unexpected error processing study'' (snd ?sb))"
  have sb: "?sb = (Inl ?x, snd ?sb)" by code_simp
  have mq: "?mq = (Inr (), snd ?mq)" by code_simp
  note E = study_outcome [OF prod.collapse [symmetric], THEN conjunct2, rule_format,
      OF conjI [OF sb mq]]
  have re: "has_error_record
     (disk (snd (process_study_folder (env_at 19) cfg0 study1 ''clinicA'' (world_of fs_two))))
     [''failed'', ''clinicA'', ''2026-11-04''] ''clinicA'' ''denied'' []"
    by code_simp
  have rep: "replicate 2 ''clinicA'' = [''clinicA'', ''clinicA'']"
    by (simp add: numeral_2_eq_2)
  from S2 S3 Sj E rj re e2 e3 ej rep show ?thesis by simp
qed

text \<open>
  What the discovery collects: the entries below the study folder whose name ends in
  \<^verbatim>\<open>.dcm\<close> or in \<^verbatim>\<open>.DCM\<close>, written exactly so, and the files whose lowered suffix is
  none of the four skipped ones and which \<^verbatim>\<open>pydicom.dcmread\<close> can read.
\<close>

lemma probe_files_set:
  "set (probe_files e fsys ps acc) =
     set acc \<union> {p \<in> set ps. is_file fsys p \<and>
                    lower (py_suffix (basename p)) \<notin> set skipped_suffixes \<and>
                    (\<exists>c. file_content fsys p = Some c \<and> dcmread_meta e c)}"
  by (induction ps arbitrary: acc) (auto split: option.splits)

lemma discover_iff:
  assumes "discover e study w = (Inr files, w')"
  shows "p \<in> set files \<longleftrightarrow>
           p \<in> set (rglob (disk w) study) \<and>
           (suffix ''.dcm'' (basename p) \<or> suffix ''.DCM'' (basename p) \<or>
            (is_file (disk w) p \<and> lower (py_suffix (basename p)) \<notin> set skipped_suffixes \<and>
             (\<exists>c. file_content (disk w) p = Some c \<and> dcmread_meta e c)))"
proof -
  from assms have
    "files = probe_files e (disk w) (rglob (disk w) study)
               (glob_ext (disk w) study ''.dcm'' @ glob_ext (disk w) study ''.DCM'')"
    by (simp add: discover_def Let_def split: option.splits)
  then show ?thesis
    by (auto simp add: probe_files_set glob_ext_def)
qed

text \<open>
  Claim C3. A file whose extension is \<^verbatim>\<open>.dcm\<close> in mixed case should be discovered. It is
  not: the valid DICOM file \<^verbatim>\<open>scan.Dcm\<close> matches neither \<^verbatim>\<open>**/*.dcm\<close> nor
  \<^verbatim>\<open>**/*.DCM\<close>, and the second loop does not probe it, because its lowered suffix
  \<^verbatim>\<open>.dcm\<close> is one of the skipped ones. The discovery of a study folder that holds only this
  file is empty, and the study is quarantined as failed without any upload. The same bytes
  are discovered under the names \<^verbatim>\<open>scan.dcm\<close>, \<^verbatim>\<open>scan.DCM\<close> and \<^verbatim>\<open>scan\<close>, and
  are left out under the name \<^verbatim>\<open>scan.json\<close>.
\<close>

theorem mixed_case_not_discovered:
  "lower (py_suffix ''scan.Dcm'') = ''.dcm'' \<and>
   dcmread_meta env0 (Bytes ''DICMbob'') \<and>
   fst (discover env0 study1 (world_of fs_mixed_case)) = Inr [] \<and>
   fst (discover env0 study1 (world_of [(study1 @ [''scan.dcm''], File (Bytes ''DICMbob''))]))
     = Inr [study1 @ [''scan.dcm'']] \<and>
   fst (discover env0 study1 (world_of [(study1 @ [''scan.DCM''], File (Bytes ''DICMbob''))]))
     = Inr [study1 @ [''scan.DCM'']] \<and>
   fst (discover env0 study1 (world_of [(study1 @ [''scan''], File (Bytes ''DICMbob''))]))
     = Inr [study1 @ [''scan'']] \<and>
   fst (discover env0 study1 (world_of [(study1 @ [''scan.json''], File (Bytes ''DICMbob''))]))
     = Inr [] \<and>
   fst (process_study_folder env0 cfg0 study1 ''clinicA'' (world_of fs_mixed_case)) = Inr False \<and>
   imports_total (snd (process_study_folder env0 cfg0 study1 ''clinicA'' (world_of fs_mixed_case)))
     = [(''clinicA'', ''failed'')] \<and>
   sent (snd (process_study_folder env0 cfg0 study1 ''clinicA'' (world_of fs_mixed_case))) = [] \<and>
   disk (snd (process_study_folder env0 cfg0 study1 ''clinicA'' (world_of fs_mixed_case))) =
     [([''failed'', ''clinicA'', ''2026-11-04'', ''study1'', ''scan.Dcm''], File (Bytes ''DICMbob'')),
      ([''failed'', ''clinicA'', ''2026-11-04''], Dir),
      ([''failed'', ''clinicA'', ''2026-11-04'', ''study1.error.json''],
       File (JsonDoc (JObj [(''timestamp'', JStr ''2026-11-04T12:00:00''),
                            (''study_folder'', JStr ''study1''),
                            (''clinic_id'', JStr ''clinicA''),
                            (''reason'', JStr ''No DICOM files found''),
                            (''errors'', JArr [])])))]"
  by code_simp

end
